theory Spec2Isabelle
  imports Main "HOL-Library.Word"
begin

unbundle bit_operations_syntax

section \<open>Signals, errors and stimuli\<close>

text \<open>
  The devices are nMigen descriptions.  A \<^verbatim>\<open>Signal(n)\<close> holds an unsigned value of
  \<open>n\<close> bits whose power-on value is its \<^verbatim>\<open>reset\<close> value (0 unless given); assigning to it
  keeps the low \<open>n\<close> bits.  The widths are run-time parameters of the constructors, so a
  value is a \<open>nat\<close> and the truncation is written out.  Control lines are \<^verbatim>\<open>Signal(1)\<close>:
  a one-bit word.
\<close>

type_synonym level = "1 word"

definition Signal_eq :: "int \<Rightarrow> nat \<Rightarrow> nat" where
  "Signal_eq bits v = v mod 2 ^ nat bits"

definition Mux :: "level \<Rightarrow> nat \<Rightarrow> nat \<Rightarrow> nat" where
  "Mux sel val1 val0 = (if sel \<noteq> 0 then val1 else val0)"

text \<open>
  A failed \<^verbatim>\<open>assert\<close> raises \<^verbatim>\<open>AssertionError\<close>; a global name that the module
  never bound raises \<^verbatim>\<open>NameError\<close>.
\<close>

datatype py_error = AssertionError | NameError string

definition py_assert :: "bool \<Rightarrow> (py_error + 'a) \<Rightarrow> py_error + 'a" where
  "py_assert c rest = (if c then rest else Inl AssertionError)"

text \<open>
  One time step of a test bench as the \<^verbatim>\<open>sim\<close> methods write it: the assignments to
  the input ports that are yielded before the next \<^verbatim>\<open>Delay\<close>.  A port that the test
  bench leaves alone is driven with the value it already has.
\<close>

record mem_stimulus =
  stim_addr :: nat
  stim_data :: nat
  stim_oe :: level
  stim_we :: level

record latch_stimulus =
  stim_d :: nat
  stim_le :: level
  stim_latch_oe :: level

text \<open>
  What \<^verbatim>\<open>formal\<close> hands to \<^verbatim>\<open>main\<close>: the properties stated on the design and the
  names of its ports.
\<close>

datatype formal_statement = Assert | Cover

record formal_design =
  fd_statements :: "formal_statement list"
  fd_ports :: "string list"

section \<open>SRam.py\<close>

record SRam =
  SRam_addr :: nat
  SRam_data_in :: nat
  SRam_data_out :: nat
  SRam_oe :: level
  SRam_we :: level
  SRam_data_bits :: int
  SRam_addr_bits :: int
  SRam_mem :: "nat list"

definition SRam_init :: "int \<Rightarrow> int \<Rightarrow> py_error + SRam" where
  "SRam_init data_bits addr_bits =
     py_assert (data_bits > 0)
    (py_assert (addr_bits > 0)
    (py_assert (addr_bits \<le> 32)
    (Inr \<lparr>SRam_addr = 0, SRam_data_in = 0, SRam_data_out = 0,
           SRam_oe = 0, SRam_we = 0,
           SRam_data_bits = data_bits, SRam_addr_bits = addr_bits,
           SRam_mem = replicate (2 ^ nat addr_bits) 0\<rparr>)))"

text \<open>The statements of the combinational domain: \<^verbatim>\<open>data_out\<close> is 0 unless \<^verbatim>\<open>~_oe & _we\<close>.\<close>

definition SRam_comb :: "SRam \<Rightarrow> SRam" where
  "SRam_comb s =
     (let s0 = s\<lparr>SRam_data_out := 0\<rparr>
      in if (NOT (SRam_oe s) AND SRam_we s) \<noteq> 0
         then s0\<lparr>SRam_data_out := SRam_mem s ! SRam_addr s\<rparr>
         else s0)"

text \<open>The statement of the domain \<^verbatim>\<open>we_clk\<close>, run on a positive edge of \<^verbatim>\<open>_we\<close>.\<close>

definition SRam_we_clk :: "SRam \<Rightarrow> SRam" where
  "SRam_we_clk s = s\<lparr>SRam_mem := (SRam_mem s)[SRam_addr s := SRam_data_in s]\<rparr>"

definition SRam_drive :: "SRam \<Rightarrow> mem_stimulus \<Rightarrow> SRam" where
  "SRam_drive s i =
     s\<lparr>SRam_addr := Signal_eq (SRam_addr_bits s) (stim_addr i),
       SRam_data_in := Signal_eq (SRam_data_bits s) (stim_data i),
       SRam_oe := stim_oe i,
       SRam_we := stim_we i\<rparr>"

text \<open>
  One evaluation step, as nMigen's simulator runs a test bench between two delays: the
  assignments take effect together; if that made \<^verbatim>\<open>_we\<close> go from 0 to 1 the
  statement of \<^verbatim>\<open>we_clk\<close> runs once, on the address and data present in this step;
  then the combinational output settles on the new cells.  The level of \<^verbatim>\<open>_we\<close>
  before the step is the one the state holds.
\<close>

definition SRam_step :: "SRam \<Rightarrow> mem_stimulus \<Rightarrow> SRam" where
  "SRam_step s i =
     (let s1 = SRam_drive s i;
          s2 = (if SRam_we s = 0 \<and> SRam_we s1 = 1 then SRam_we_clk s1 else s1)
      in SRam_comb s2)"

fun SRam_run :: "SRam \<Rightarrow> mem_stimulus list \<Rightarrow> SRam" where
  "SRam_run s [] = s"
| "SRam_run s (i # is) = SRam_run (SRam_step s i) is"

text \<open>The addresses at which a run commits a write, in order.\<close>

fun SRam_commits :: "SRam \<Rightarrow> mem_stimulus list \<Rightarrow> nat list" where
  "SRam_commits s [] = []"
| "SRam_commits s (i # is) =
     (if SRam_we s = 0 \<and> stim_we i = 1
      then Signal_eq (SRam_addr_bits s) (stim_addr i) # SRam_commits (SRam_step s i) is
      else SRam_commits (SRam_step s i) is)"

text \<open>The array has one cell for each value of the address port.\<close>

definition SRam_inv :: "SRam \<Rightarrow> bool" where
  "SRam_inv s = (length (SRam_mem s) = 2 ^ nat (SRam_addr_bits s))"

section \<open>sram.py\<close>

record sram =
  sram_addr :: nat
  sram_data_in :: nat
  sram_data_out :: nat
  sram_oe :: level
  sram_we :: level
  sram_data_bits :: int
  sram_addr_bits :: int
  sram_mem :: "nat list"

definition sram_init :: "int \<Rightarrow> int \<Rightarrow> py_error + sram" where
  "sram_init data_bits addr_bits =
     py_assert (data_bits > 0)
    (py_assert (addr_bits > 0)
    (py_assert (addr_bits \<le> 16)
    (Inr \<lparr>sram_addr = 0, sram_data_in = 0, sram_data_out = 0,
           sram_oe = 0, sram_we = 0,
           sram_data_bits = data_bits, sram_addr_bits = addr_bits,
           sram_mem = replicate (2 ^ nat addr_bits) 0\<rparr>)))"

definition sram_comb :: "sram \<Rightarrow> sram" where
  "sram_comb s =
     (let s0 = s\<lparr>sram_data_out := 0\<rparr>
      in if (NOT (sram_oe s) AND sram_we s) \<noteq> 0
         then s0\<lparr>sram_data_out := sram_mem s ! sram_addr s\<rparr>
         else s0)"

definition sram_we_clk :: "sram \<Rightarrow> sram" where
  "sram_we_clk s = s\<lparr>sram_mem := (sram_mem s)[sram_addr s := sram_data_in s]\<rparr>"

definition sram_drive :: "sram \<Rightarrow> mem_stimulus \<Rightarrow> sram" where
  "sram_drive s i =
     s\<lparr>sram_addr := Signal_eq (sram_addr_bits s) (stim_addr i),
       sram_data_in := Signal_eq (sram_data_bits s) (stim_data i),
       sram_oe := stim_oe i,
       sram_we := stim_we i\<rparr>"

definition sram_step :: "sram \<Rightarrow> mem_stimulus \<Rightarrow> sram" where
  "sram_step s i =
     (let s1 = sram_drive s i;
          s2 = (if sram_we s = 0 \<and> sram_we s1 = 1 then sram_we_clk s1 else s1)
      in sram_comb s2)"

fun sram_run :: "sram \<Rightarrow> mem_stimulus list \<Rightarrow> sram" where
  "sram_run s [] = s"
| "sram_run s (i # is) = sram_run (sram_step s i) is"

fun sram_commits :: "sram \<Rightarrow> mem_stimulus list \<Rightarrow> nat list" where
  "sram_commits s [] = []"
| "sram_commits s (i # is) =
     (if sram_we s = 0 \<and> stim_we i = 1
      then Signal_eq (sram_addr_bits s) (stim_addr i) # sram_commits (sram_step s i) is
      else sram_commits (sram_step s i) is)"

definition sram_inv :: "sram \<Rightarrow> bool" where
  "sram_inv s = (length (sram_mem s) = 2 ^ nat (sram_addr_bits s))"

text \<open>\<^verbatim>\<open>formal\<close> of sram.py is \<^verbatim>\<open>assert False\<close>; past it the body would return \<^verbatim>\<open>None\<close>.\<close>

definition sram_formal :: "py_error + formal_design option" where
  "sram_formal = py_assert False (Inr None)"

section \<open>eeprom.py\<close>

record EEProm =
  EEProm_a :: nat
  EEProm_io_in :: nat
  EEProm_io_out :: nat
  EEProm_oe :: level
  EEProm_we :: level
  EEProm_a_bits :: int
  EEProm_io_bits :: int
  EEProm_mem :: "nat list"

definition EEProm_init :: "int \<Rightarrow> int \<Rightarrow> py_error + EEProm" where
  "EEProm_init data_bits addr_bits =
     py_assert (data_bits > 0)
    (py_assert (addr_bits > 0)
    (py_assert (addr_bits \<le> 32)
    (Inr \<lparr>EEProm_a = 0, EEProm_io_in = 0, EEProm_io_out = 0,
           EEProm_oe = 0, EEProm_we = 0,
           EEProm_a_bits = addr_bits, EEProm_io_bits = data_bits,
           EEProm_mem = replicate (2 ^ nat addr_bits) 0\<rparr>)))"

definition EEProm_comb :: "EEProm \<Rightarrow> EEProm" where
  "EEProm_comb s =
     (let s0 = s\<lparr>EEProm_io_out := 0\<rparr>
      in if (NOT (EEProm_oe s) AND EEProm_we s) \<noteq> 0
         then s0\<lparr>EEProm_io_out := EEProm_mem s ! EEProm_a s\<rparr>
         else s0)"

definition EEProm_we_clk :: "EEProm \<Rightarrow> EEProm" where
  "EEProm_we_clk s = s\<lparr>EEProm_mem := (EEProm_mem s)[EEProm_a s := EEProm_io_in s]\<rparr>"

definition EEProm_drive :: "EEProm \<Rightarrow> mem_stimulus \<Rightarrow> EEProm" where
  "EEProm_drive s i =
     s\<lparr>EEProm_a := Signal_eq (EEProm_a_bits s) (stim_addr i),
       EEProm_io_in := Signal_eq (EEProm_io_bits s) (stim_data i),
       EEProm_oe := stim_oe i,
       EEProm_we := stim_we i\<rparr>"

definition EEProm_step :: "EEProm \<Rightarrow> mem_stimulus \<Rightarrow> EEProm" where
  "EEProm_step s i =
     (let s1 = EEProm_drive s i;
          s2 = (if EEProm_we s = 0 \<and> EEProm_we s1 = 1 then EEProm_we_clk s1 else s1)
      in EEProm_comb s2)"

fun EEProm_run :: "EEProm \<Rightarrow> mem_stimulus list \<Rightarrow> EEProm" where
  "EEProm_run s [] = s"
| "EEProm_run s (i # is) = EEProm_run (EEProm_step s i) is"

fun EEProm_commits :: "EEProm \<Rightarrow> mem_stimulus list \<Rightarrow> nat list" where
  "EEProm_commits s [] = []"
| "EEProm_commits s (i # is) =
     (if EEProm_we s = 0 \<and> stim_we i = 1
      then Signal_eq (EEProm_a_bits s) (stim_addr i) # EEProm_commits (EEProm_step s i) is
      else EEProm_commits (EEProm_step s i) is)"

definition EEProm_inv :: "EEProm \<Rightarrow> bool" where
  "EEProm_inv s = (length (EEProm_mem s) = 2 ^ nat (EEProm_a_bits s))"

definition EEProm_ports :: "string list" where
  "EEProm_ports = [''a'', ''io_in'', ''io_out'', ''_oe'', ''_we'']"

definition EEProm_formal :: "py_error + formal_design option" where
  "EEProm_formal = py_assert False (Inr None)"

section \<open>TransparentLatch.py\<close>

record TransparentLatch =
  TransparentLatch_d :: nat
  TransparentLatch_q :: nat
  TransparentLatch_le :: level
  TransparentLatch_oe :: level
  TransparentLatch_bits :: int

definition TransparentLatch_init :: "int \<Rightarrow> py_error + TransparentLatch" where
  "TransparentLatch_init bits =
     py_assert (bits > 0)
    (Inr \<lparr>TransparentLatch_d = 0,
           TransparentLatch_q = 0,
           TransparentLatch_le = 0,
           TransparentLatch_oe = 0,
           TransparentLatch_bits = bits\<rparr>)"

text \<open>
  \<^verbatim>\<open>elaborate\<close> adds the register \<^verbatim>\<open>internal_reg\<close>, a signal of its own with
  \<^verbatim>\<open>reset=0\<close>, to the ports of the object.
\<close>

record TransparentLatch_module = TransparentLatch +
  TransparentLatch_internal_reg :: nat

definition TransparentLatch_elaborate ::
  "TransparentLatch \<Rightarrow> TransparentLatch_module" where
  "TransparentLatch_elaborate l =
     \<lparr>TransparentLatch_d = TransparentLatch_d l,
      TransparentLatch_q = TransparentLatch_q l,
      TransparentLatch_le = TransparentLatch_le l,
      TransparentLatch_oe = TransparentLatch_oe l,
      TransparentLatch_bits = TransparentLatch_bits l,
      TransparentLatch_internal_reg = 0\<rparr>"

text \<open>The statement of the domain \<^verbatim>\<open>le_clk\<close>, run on a negative edge of \<^verbatim>\<open>le\<close>.\<close>

definition TransparentLatch_le_clk ::
  "TransparentLatch_module \<Rightarrow> TransparentLatch_module" where
  "TransparentLatch_le_clk s = s\<lparr>TransparentLatch_internal_reg :=
        TransparentLatch_d s\<rparr>"

text \<open>The combinational statements: the \<^verbatim>\<open>Mux\<close>, then the override under \<^verbatim>\<open>le & ~_oe\<close>.\<close>

definition TransparentLatch_comb ::
  "TransparentLatch_module \<Rightarrow> TransparentLatch_module" where
  "TransparentLatch_comb s =
     (let s0 = s\<lparr>TransparentLatch_q :=
           Mux (TransparentLatch_oe s) 0 (TransparentLatch_internal_reg s)\<rparr>
      in if (TransparentLatch_le s AND NOT (TransparentLatch_oe s)) \<noteq> 0
         then s0\<lparr>TransparentLatch_q := TransparentLatch_d s\<rparr>
         else s0)"

definition TransparentLatch_drive ::
  "TransparentLatch_module \<Rightarrow> latch_stimulus \<Rightarrow> TransparentLatch_module" where
  "TransparentLatch_drive s i =
     s\<lparr>TransparentLatch_d := Signal_eq (TransparentLatch_bits s) (stim_d i),
       TransparentLatch_le := stim_le i,
       TransparentLatch_oe := stim_latch_oe i\<rparr>"

text \<open>
  One evaluation step: the assignments take effect together; if that made \<^verbatim>\<open>le\<close> go
  from 1 to 0 the statement of \<^verbatim>\<open>le_clk\<close> runs once, on the \<open>d\<close> present in this
  step; then \<open>q\<close> settles.
\<close>

definition TransparentLatch_step ::
  "TransparentLatch_module \<Rightarrow> latch_stimulus \<Rightarrow> TransparentLatch_module" where
  "TransparentLatch_step s i =
     (let s1 = TransparentLatch_drive s i;
          s2 = (if TransparentLatch_le s = 1 \<and> TransparentLatch_le s1 = 0
                then TransparentLatch_le_clk s1 else s1)
      in TransparentLatch_comb s2)"

fun TransparentLatch_run ::
  "TransparentLatch_module \<Rightarrow> latch_stimulus list \<Rightarrow> TransparentLatch_module" where
  "TransparentLatch_run s [] = s"
| "TransparentLatch_run s (i # is) = TransparentLatch_run (TransparentLatch_step s i) is"

definition TransparentLatch_ports :: "string list" where
  "TransparentLatch_ports = [''d'', ''q'', ''le'', ''_oe'']"

text \<open>
  \<^verbatim>\<open>formal\<close> of TransparentLatch.py builds a 16-bit latch and states one cover and
  three assertions on it.
\<close>

definition TransparentLatch_formal :: "py_error + formal_design option" where
  "TransparentLatch_formal =
     (case TransparentLatch_init 16 of
        Inl e \<Rightarrow> Inl e
      | Inr latch \<Rightarrow>
          Inr (Some \<lparr>fd_statements = [Cover, Assert, Assert, Assert],
                     fd_ports = TransparentLatch_ports\<rparr>))"

section \<open>\<^verbatim>\<open>transparent_latch.py\<close>\<close>

record transparent_latch =
  transparent_latch_d :: nat
  transparent_latch_q :: nat
  transparent_latch_le :: level
  transparent_latch_oe :: level
  transparent_latch_bits :: int

definition transparent_latch_init :: "int \<Rightarrow> py_error + transparent_latch" where
  "transparent_latch_init bits =
     py_assert (bits > 0)
    (Inr \<lparr>transparent_latch_d = 0,
           transparent_latch_q = 0,
           transparent_latch_le = 0,
           transparent_latch_oe = 0,
           transparent_latch_bits = bits\<rparr>)"

text \<open>
  \<^verbatim>\<open>elaborate\<close> adds the register \<^verbatim>\<open>internal_reg\<close>, a signal of its own with
  \<^verbatim>\<open>reset=0\<close>, to the ports of the object.
\<close>

record transparent_latch_module = transparent_latch +
  transparent_latch_internal_reg :: nat

definition transparent_latch_elaborate ::
  "transparent_latch \<Rightarrow> transparent_latch_module" where
  "transparent_latch_elaborate l =
     \<lparr>transparent_latch_d = transparent_latch_d l,
      transparent_latch_q = transparent_latch_q l,
      transparent_latch_le = transparent_latch_le l,
      transparent_latch_oe = transparent_latch_oe l,
      transparent_latch_bits = transparent_latch_bits l,
      transparent_latch_internal_reg = 0\<rparr>"

text \<open>The statement of the domain \<^verbatim>\<open>le_clk\<close>, run on a negative edge of \<^verbatim>\<open>le\<close>.\<close>

definition transparent_latch_le_clk ::
  "transparent_latch_module \<Rightarrow> transparent_latch_module" where
  "transparent_latch_le_clk s = s\<lparr>transparent_latch_internal_reg :=
        transparent_latch_d s\<rparr>"

text \<open>The combinational statements: the \<^verbatim>\<open>Mux\<close>, then the override under \<^verbatim>\<open>le & ~_oe\<close>.\<close>

definition transparent_latch_comb ::
  "transparent_latch_module \<Rightarrow> transparent_latch_module" where
  "transparent_latch_comb s =
     (let s0 = s\<lparr>transparent_latch_q :=
           Mux (transparent_latch_oe s) 0 (transparent_latch_internal_reg s)\<rparr>
      in if (transparent_latch_le s AND NOT (transparent_latch_oe s)) \<noteq> 0
         then s0\<lparr>transparent_latch_q := transparent_latch_d s\<rparr>
         else s0)"

definition transparent_latch_drive ::
  "transparent_latch_module \<Rightarrow> latch_stimulus \<Rightarrow> transparent_latch_module" where
  "transparent_latch_drive s i =
     s\<lparr>transparent_latch_d := Signal_eq (transparent_latch_bits s) (stim_d i),
       transparent_latch_le := stim_le i,
       transparent_latch_oe := stim_latch_oe i\<rparr>"

text \<open>
  One evaluation step: the assignments take effect together; if that made \<^verbatim>\<open>le\<close> go
  from 1 to 0 the statement of \<^verbatim>\<open>le_clk\<close> runs once, on the \<open>d\<close> present in this
  step; then \<open>q\<close> settles.
\<close>

definition transparent_latch_step ::
  "transparent_latch_module \<Rightarrow> latch_stimulus \<Rightarrow> transparent_latch_module" where
  "transparent_latch_step s i =
     (let s1 = transparent_latch_drive s i;
          s2 = (if transparent_latch_le s = 1 \<and> transparent_latch_le s1 = 0
                then transparent_latch_le_clk s1 else s1)
      in transparent_latch_comb s2)"

fun transparent_latch_run ::
  "transparent_latch_module \<Rightarrow> latch_stimulus list \<Rightarrow> transparent_latch_module" where
  "transparent_latch_run s [] = s"
| "transparent_latch_run s (i # is) = transparent_latch_run (transparent_latch_step s i) is"

text \<open>
  \<^verbatim>\<open>formal\<close> of \<^verbatim>\<open>transparent_latch.py\<close> is \<^verbatim>\<open>assert False\<close>, as is its
  \<^verbatim>\<open>sim\<close>.
\<close>

definition transparent_latch_formal :: "py_error + formal_design option" where
  "transparent_latch_formal = py_assert False (Inr None)"

section \<open>\<^verbatim>\<open>formal\<close> of SRam.py\<close>

text \<open>
  The global names that SRam.py binds: its imports and the class it defines.
\<close>

definition SRam_py_globals :: "string list" where
  "SRam_py_globals =
     [''List'', ''Tuple'',
      ''Array'', ''ClockDomain'', ''Elaboratable'', ''Module'', ''Mux'', ''Signal'',
      ''Platform'', ''Simulator'', ''Delay'',
      ''Assert'', ''Assume'', ''Cover'', ''Fell'', ''Past'', ''Rose'', ''Stable'',
      ''main'', ''SRam'']"

text \<open>
  The body calls \<^verbatim>\<open>EEProm(16, 4)\<close>, states nothing (a \<^verbatim>\<open>TODO\<close> stands in the place)
  and returns the module with the ports of that device.  The first argument is the set of
  global names of the module the body runs in; where \<^verbatim>\<open>EEProm\<close> is bound it is taken
  to be the class of eeprom.py.
\<close>

definition SRam_formal_in :: "string list \<Rightarrow> py_error + formal_design option" where
  "SRam_formal_in globals =
     (if ''EEProm'' \<notin> set globals then Inl (NameError ''EEProm'')
      else case EEProm_init 16 4 of
             Inl e \<Rightarrow> Inl e
           | Inr rom \<Rightarrow> Inr (Some \<lparr>fd_statements = [], fd_ports = EEProm_ports\<rparr>))"

definition SRam_formal :: "py_error + formal_design option" where
  "SRam_formal = SRam_formal_in SRam_py_globals"

section \<open>Observing the devices\<close>

text \<open>
  The three memory classes are compared port by port: address, data in, data out, output
  enable, write enable, the two widths and the cells.
\<close>

type_synonym mem_view = "nat \<times> nat \<times> nat \<times> level \<times> level \<times> int \<times> int \<times> nat list"

definition SRam_view :: "SRam \<Rightarrow> mem_view" where
  "SRam_view s =
     (SRam_addr s, SRam_data_in s, SRam_data_out s, SRam_oe s, SRam_we s,
      SRam_data_bits s, SRam_addr_bits s, SRam_mem s)"

definition sram_view :: "sram \<Rightarrow> mem_view" where
  "sram_view s =
     (sram_addr s, sram_data_in s, sram_data_out s, sram_oe s, sram_we s,
      sram_data_bits s, sram_addr_bits s, sram_mem s)"

definition EEProm_view :: "EEProm \<Rightarrow> mem_view" where
  "EEProm_view s =
     (EEProm_a s, EEProm_io_in s, EEProm_io_out s, EEProm_oe s, EEProm_we s,
      EEProm_io_bits s, EEProm_a_bits s, EEProm_mem s)"

text \<open>
  The devices that the \<^verbatim>\<open>sim\<close> methods build: \<^verbatim>\<open>SRam(16, 4)\<close> in SRam.py,
  \<^verbatim>\<open>SRam(16, 2)\<close> in sram.py, \<^verbatim>\<open>EEProm(16, 4)\<close> and \<^verbatim>\<open>TransparentLatch(16)\<close>, at
  power-on.
\<close>

definition SRam_16_4 :: SRam where
  "SRam_16_4 = projr (SRam_init 16 4)"

definition sram_16_2 :: sram where
  "sram_16_2 = projr (sram_init 16 2)"

definition EEProm_16_4 :: EEProm where
  "EEProm_16_4 = projr (EEProm_init 16 4)"

definition TransparentLatch_16 :: TransparentLatch_module where
  "TransparentLatch_16 = TransparentLatch_elaborate (projr (TransparentLatch_init 16))"

definition transparent_latch_16 :: transparent_latch_module where
  "transparent_latch_16 = transparent_latch_elaborate (projr (transparent_latch_init 16))"

section \<open>Control lines\<close>

lemma level_cases: "(x :: level) = 0 \<or> x = 1"
proof -
  have "unat x < 2"
    using unsigned_less [of x] by simp
  then have "unat x = 0 \<or> unat x = 1"
    by arith
  then have "unat x = unat (0 :: level) \<or> unat x = unat (1 :: level)"
    by simp
  then show ?thesis
    by (simp only: word_unat_eq_iff [symmetric])
qed

lemma level_not_0_iff: "((x :: level) \<noteq> 0) = (x = 1)"
  using level_cases [of x] by auto

lemma read_enable_iff: "((NOT oe AND we) \<noteq> 0) = (oe = 0 \<and> we = (1 :: level))"
proof -
  consider "oe = 0" "we = 0" | "oe = 0" "we = 1" | "oe = 1" "we = 0" | "oe = 1" "we = 1"
    using level_cases [of oe] level_cases [of we] by blast
  then show ?thesis
    by cases simp_all
qed

lemma pass_enable_iff: "((le AND NOT oe) \<noteq> 0) = (le = 1 \<and> oe = (0 :: level))"
proof -
  consider "oe = 0" "le = 0" | "oe = 0" "le = 1" | "oe = 1" "le = 0" | "oe = 1" "le = 1"
    using level_cases [of oe] level_cases [of le] by blast
  then show ?thesis
    by cases simp_all
qed

lemma Signal_eq_id: "v < 2 ^ nat bits \<Longrightarrow> Signal_eq bits v = v"
  by (simp add: Signal_eq_def)

lemma Signal_eq_less: "Signal_eq bits v < 2 ^ nat bits"
  by (simp add: Signal_eq_def)

section \<open>Steps of SRam\<close>

lemmas SRam_defs = SRam_step_def SRam_drive_def SRam_comb_def SRam_we_clk_def Let_def

lemma SRam_comb_out:
  "SRam_data_out (SRam_comb s) =
     (if SRam_oe s = 0 \<and> SRam_we s = 1 then SRam_mem s ! SRam_addr s else 0)"
  by (simp add: SRam_comb_def Let_def read_enable_iff)

lemma SRam_step_mem:
  "SRam_mem (SRam_step s i) =
     (if SRam_we s = 0 \<and> stim_we i = 1
      then (SRam_mem s)[Signal_eq (SRam_addr_bits s) (stim_addr i) :=
                         Signal_eq (SRam_data_bits s) (stim_data i)]
      else SRam_mem s)"
  by (simp add: SRam_defs)

lemma SRam_step_ports:
  "SRam_we (SRam_step s i) = stim_we i"
  "SRam_oe (SRam_step s i) = stim_oe i"
  "SRam_addr (SRam_step s i) = Signal_eq (SRam_addr_bits s) (stim_addr i)"
  "SRam_data_in (SRam_step s i) = Signal_eq (SRam_data_bits s) (stim_data i)"
  "SRam_addr_bits (SRam_step s i) = SRam_addr_bits s"
  "SRam_data_bits (SRam_step s i) = SRam_data_bits s"
  by (simp_all add: SRam_defs)

lemma SRam_step_out:
  "SRam_data_out (SRam_step s i) =
     (if stim_oe i = 0 \<and> stim_we i = 1
      then SRam_mem (SRam_step s i) ! Signal_eq (SRam_addr_bits s) (stim_addr i)
      else 0)"
  by (simp add: SRam_defs read_enable_iff)

lemma SRam_step_inv: "SRam_inv s \<Longrightarrow> SRam_inv (SRam_step s i)"
  by (simp add: SRam_inv_def SRam_step_mem SRam_step_ports)

lemma SRam_step_addr_in_range:
  "SRam_inv s \<Longrightarrow> SRam_addr (SRam_step s i) < length (SRam_mem (SRam_step s i))"
  by (simp add: SRam_inv_def SRam_step_mem SRam_step_ports Signal_eq_less)

lemma SRam_init_Inr:
  "SRam_init data_bits addr_bits = Inr s \<Longrightarrow>
     SRam_mem s = replicate (2 ^ nat addr_bits) 0 \<and> SRam_addr_bits s = addr_bits \<and>
     SRam_data_bits s = data_bits \<and> SRam_we s = 0"
  by (auto simp add: SRam_init_def py_assert_def split: if_splits)

lemma SRam_init_inv: "SRam_init data_bits addr_bits = Inr s \<Longrightarrow> SRam_inv s"
  by (drule SRam_init_Inr) (simp add: SRam_inv_def)

lemma SRam_run_bits: "SRam_addr_bits (SRam_run s is) = SRam_addr_bits s"
  by (induction "is" arbitrary: s) (simp_all add: SRam_step_ports)

lemma SRam_run_inv: "SRam_inv s \<Longrightarrow> SRam_inv (SRam_run s is)"
  by (induction "is" arbitrary: s) (simp_all add: SRam_step_inv)

lemma SRam_run_append: "SRam_run s (is @ js) = SRam_run (SRam_run s is) js"
  by (induction "is" arbitrary: s) simp_all

lemma SRam_commits_append:
  "SRam_commits s (is @ js) = SRam_commits s is @ SRam_commits (SRam_run s is) js"
  by (induction "is" arbitrary: s) simp_all

lemma SRam_hold:
  "\<forall>j \<in> set js. stim_we j = SRam_we s \<Longrightarrow> SRam_mem (SRam_run s js) = SRam_mem s"
proof (induction js arbitrary: s)
  case Nil
  then show ?case by simp
next
  case (Cons j js)
  have same: "stim_we j = SRam_we s"
    using Cons.prems by simp
  then have "SRam_mem (SRam_step s j) = SRam_mem s"
    by (auto simp add: SRam_step_mem)
  moreover have "SRam_mem (SRam_run (SRam_step s j) js) = SRam_mem (SRam_step s j)"
    using Cons.prems same by (intro Cons.IH) (simp add: SRam_step_ports)
  ultimately show ?case
    by simp
qed

lemma SRam_untouched:
  "a \<notin> set (SRam_commits s is) \<Longrightarrow> SRam_mem (SRam_run s is) ! a = SRam_mem s ! a"
proof (induction "is" arbitrary: s)
  case Nil
  then show ?case by simp
next
  case (Cons i "is")
  have rest: "a \<notin> set (SRam_commits (SRam_step s i) is)"
    using Cons.prems by (simp split: if_splits)
  have "SRam_mem (SRam_step s i) ! a = SRam_mem s ! a"
    using Cons.prems by (auto simp add: SRam_step_mem split: if_splits)
  with Cons.IH [OF rest] show ?case
    by simp
qed

section \<open>Steps of sram\<close>

lemmas sram_defs = sram_step_def sram_drive_def sram_comb_def sram_we_clk_def Let_def

lemma sram_comb_out:
  "sram_data_out (sram_comb s) =
     (if sram_oe s = 0 \<and> sram_we s = 1 then sram_mem s ! sram_addr s else 0)"
  by (simp add: sram_comb_def Let_def read_enable_iff)

lemma sram_step_mem:
  "sram_mem (sram_step s i) =
     (if sram_we s = 0 \<and> stim_we i = 1
      then (sram_mem s)[Signal_eq (sram_addr_bits s) (stim_addr i) :=
                         Signal_eq (sram_data_bits s) (stim_data i)]
      else sram_mem s)"
  by (simp add: sram_defs)

lemma sram_step_ports:
  "sram_we (sram_step s i) = stim_we i"
  "sram_oe (sram_step s i) = stim_oe i"
  "sram_addr (sram_step s i) = Signal_eq (sram_addr_bits s) (stim_addr i)"
  "sram_data_in (sram_step s i) = Signal_eq (sram_data_bits s) (stim_data i)"
  "sram_addr_bits (sram_step s i) = sram_addr_bits s"
  "sram_data_bits (sram_step s i) = sram_data_bits s"
  by (simp_all add: sram_defs)

lemma sram_step_out:
  "sram_data_out (sram_step s i) =
     (if stim_oe i = 0 \<and> stim_we i = 1
      then sram_mem (sram_step s i) ! Signal_eq (sram_addr_bits s) (stim_addr i)
      else 0)"
  by (simp add: sram_defs read_enable_iff)

lemma sram_step_inv: "sram_inv s \<Longrightarrow> sram_inv (sram_step s i)"
  by (simp add: sram_inv_def sram_step_mem sram_step_ports)

lemma sram_step_addr_in_range:
  "sram_inv s \<Longrightarrow> sram_addr (sram_step s i) < length (sram_mem (sram_step s i))"
  by (simp add: sram_inv_def sram_step_mem sram_step_ports Signal_eq_less)

lemma sram_init_Inr:
  "sram_init data_bits addr_bits = Inr s \<Longrightarrow>
     sram_mem s = replicate (2 ^ nat addr_bits) 0 \<and> sram_addr_bits s = addr_bits \<and>
     sram_data_bits s = data_bits \<and> sram_we s = 0"
  by (auto simp add: sram_init_def py_assert_def split: if_splits)

lemma sram_init_inv: "sram_init data_bits addr_bits = Inr s \<Longrightarrow> sram_inv s"
  by (drule sram_init_Inr) (simp add: sram_inv_def)

lemma sram_run_bits: "sram_addr_bits (sram_run s is) = sram_addr_bits s"
  by (induction "is" arbitrary: s) (simp_all add: sram_step_ports)

lemma sram_run_inv: "sram_inv s \<Longrightarrow> sram_inv (sram_run s is)"
  by (induction "is" arbitrary: s) (simp_all add: sram_step_inv)

lemma sram_run_append: "sram_run s (is @ js) = sram_run (sram_run s is) js"
  by (induction "is" arbitrary: s) simp_all

lemma sram_commits_append:
  "sram_commits s (is @ js) = sram_commits s is @ sram_commits (sram_run s is) js"
  by (induction "is" arbitrary: s) simp_all

lemma sram_hold:
  "\<forall>j \<in> set js. stim_we j = sram_we s \<Longrightarrow> sram_mem (sram_run s js) = sram_mem s"
proof (induction js arbitrary: s)
  case Nil
  then show ?case by simp
next
  case (Cons j js)
  have same: "stim_we j = sram_we s"
    using Cons.prems by simp
  then have "sram_mem (sram_step s j) = sram_mem s"
    by (auto simp add: sram_step_mem)
  moreover have "sram_mem (sram_run (sram_step s j) js) = sram_mem (sram_step s j)"
    using Cons.prems same by (intro Cons.IH) (simp add: sram_step_ports)
  ultimately show ?case
    by simp
qed

lemma sram_untouched:
  "a \<notin> set (sram_commits s is) \<Longrightarrow> sram_mem (sram_run s is) ! a = sram_mem s ! a"
proof (induction "is" arbitrary: s)
  case Nil
  then show ?case by simp
next
  case (Cons i "is")
  have rest: "a \<notin> set (sram_commits (sram_step s i) is)"
    using Cons.prems by (simp split: if_splits)
  have "sram_mem (sram_step s i) ! a = sram_mem s ! a"
    using Cons.prems by (auto simp add: sram_step_mem split: if_splits)
  with Cons.IH [OF rest] show ?case
    by simp
qed

section \<open>Steps of EEProm\<close>

lemmas EEProm_defs = EEProm_step_def EEProm_drive_def EEProm_comb_def EEProm_we_clk_def Let_def

lemma EEProm_comb_out:
  "EEProm_io_out (EEProm_comb s) =
     (if EEProm_oe s = 0 \<and> EEProm_we s = 1 then EEProm_mem s ! EEProm_a s else 0)"
  by (simp add: EEProm_comb_def Let_def read_enable_iff)

lemma EEProm_step_mem:
  "EEProm_mem (EEProm_step s i) =
     (if EEProm_we s = 0 \<and> stim_we i = 1
      then (EEProm_mem s)[Signal_eq (EEProm_a_bits s) (stim_addr i) :=
                         Signal_eq (EEProm_io_bits s) (stim_data i)]
      else EEProm_mem s)"
  by (simp add: EEProm_defs)

lemma EEProm_step_ports:
  "EEProm_we (EEProm_step s i) = stim_we i"
  "EEProm_oe (EEProm_step s i) = stim_oe i"
  "EEProm_a (EEProm_step s i) = Signal_eq (EEProm_a_bits s) (stim_addr i)"
  "EEProm_io_in (EEProm_step s i) = Signal_eq (EEProm_io_bits s) (stim_data i)"
  "EEProm_a_bits (EEProm_step s i) = EEProm_a_bits s"
  "EEProm_io_bits (EEProm_step s i) = EEProm_io_bits s"
  by (simp_all add: EEProm_defs)

lemma EEProm_step_out:
  "EEProm_io_out (EEProm_step s i) =
     (if stim_oe i = 0 \<and> stim_we i = 1
      then EEProm_mem (EEProm_step s i) ! Signal_eq (EEProm_a_bits s) (stim_addr i)
      else 0)"
  by (simp add: EEProm_defs read_enable_iff)

lemma EEProm_step_inv: "EEProm_inv s \<Longrightarrow> EEProm_inv (EEProm_step s i)"
  by (simp add: EEProm_inv_def EEProm_step_mem EEProm_step_ports)

lemma EEProm_step_addr_in_range:
  "EEProm_inv s \<Longrightarrow> EEProm_a (EEProm_step s i) < length (EEProm_mem (EEProm_step s i))"
  by (simp add: EEProm_inv_def EEProm_step_mem EEProm_step_ports Signal_eq_less)

lemma EEProm_init_Inr:
  "EEProm_init data_bits addr_bits = Inr s \<Longrightarrow>
     EEProm_mem s = replicate (2 ^ nat addr_bits) 0 \<and> EEProm_a_bits s = addr_bits \<and>
     EEProm_io_bits s = data_bits \<and> EEProm_we s = 0"
  by (auto simp add: EEProm_init_def py_assert_def split: if_splits)

lemma EEProm_init_inv: "EEProm_init data_bits addr_bits = Inr s \<Longrightarrow> EEProm_inv s"
  by (drule EEProm_init_Inr) (simp add: EEProm_inv_def)

lemma EEProm_run_bits: "EEProm_a_bits (EEProm_run s is) = EEProm_a_bits s"
  by (induction "is" arbitrary: s) (simp_all add: EEProm_step_ports)

lemma EEProm_run_inv: "EEProm_inv s \<Longrightarrow> EEProm_inv (EEProm_run s is)"
  by (induction "is" arbitrary: s) (simp_all add: EEProm_step_inv)

lemma EEProm_run_append: "EEProm_run s (is @ js) = EEProm_run (EEProm_run s is) js"
  by (induction "is" arbitrary: s) simp_all

lemma EEProm_commits_append:
  "EEProm_commits s (is @ js) = EEProm_commits s is @ EEProm_commits (EEProm_run s is) js"
  by (induction "is" arbitrary: s) simp_all

lemma EEProm_hold:
  "\<forall>j \<in> set js. stim_we j = EEProm_we s \<Longrightarrow> EEProm_mem (EEProm_run s js) = EEProm_mem s"
proof (induction js arbitrary: s)
  case Nil
  then show ?case by simp
next
  case (Cons j js)
  have same: "stim_we j = EEProm_we s"
    using Cons.prems by simp
  then have "EEProm_mem (EEProm_step s j) = EEProm_mem s"
    by (auto simp add: EEProm_step_mem)
  moreover have "EEProm_mem (EEProm_run (EEProm_step s j) js) = EEProm_mem (EEProm_step s j)"
    using Cons.prems same by (intro Cons.IH) (simp add: EEProm_step_ports)
  ultimately show ?case
    by simp
qed

lemma EEProm_untouched:
  "a \<notin> set (EEProm_commits s is) \<Longrightarrow> EEProm_mem (EEProm_run s is) ! a = EEProm_mem s ! a"
proof (induction "is" arbitrary: s)
  case Nil
  then show ?case by simp
next
  case (Cons i "is")
  have rest: "a \<notin> set (EEProm_commits (EEProm_step s i) is)"
    using Cons.prems by (simp split: if_splits)
  have "EEProm_mem (EEProm_step s i) ! a = EEProm_mem s ! a"
    using Cons.prems by (auto simp add: EEProm_step_mem split: if_splits)
  with Cons.IH [OF rest] show ?case
    by simp
qed

section \<open>Writing and reading SRam\<close>

lemma SRam_write_read:
  assumes "SRam_inv s" and "a < 2 ^ nat (SRam_addr_bits s)" and "v < 2 ^ nat (SRam_data_bits s)"
    and "SRam_we s = 0"
  shows "SRam_data_out
           (SRam_step
              (SRam_step s \<lparr>stim_addr = a, stim_data = v, stim_oe = oe, stim_we = 1\<rparr>)
              \<lparr>stim_addr = a, stim_data = x, stim_oe = 0, stim_we = 1\<rparr>) = v"
proof -
  let ?w = "SRam_step s \<lparr>stim_addr = a, stim_data = v, stim_oe = oe, stim_we = 1\<rparr>"
  have len: "a < length (SRam_mem s)"
    using assms(1,2) by (simp add: SRam_inv_def)
  have "SRam_mem ?w = (SRam_mem s)[a := v]"
    using assms by (simp add: SRam_step_mem Signal_eq_id)
  then have cell: "SRam_mem ?w ! a = v"
    using len by simp
  have "SRam_we ?w = 1" and "SRam_addr_bits ?w = SRam_addr_bits s"
    by (simp_all add: SRam_step_ports)
  then show ?thesis
    using cell assms(2) by (simp add: SRam_step_out SRam_step_mem Signal_eq_id)
qed

lemma SRam_commit:
  assumes "SRam_inv s" and "SRam_we s = 0" and "stim_we i = 1"
  shows "Signal_eq (SRam_addr_bits s) (stim_addr i) < length (SRam_mem s) \<and>
         SRam_mem (SRam_step s i) =
           (SRam_mem s)[Signal_eq (SRam_addr_bits s) (stim_addr i) :=
                         Signal_eq (SRam_data_bits s) (stim_data i)] \<and>
         SRam_mem (SRam_step s i) ! Signal_eq (SRam_addr_bits s) (stim_addr i) =
           Signal_eq (SRam_data_bits s) (stim_data i)"
proof -
  have "Signal_eq (SRam_addr_bits s) (stim_addr i) < length (SRam_mem s)"
    using assms(1) by (simp add: SRam_inv_def Signal_eq_less)
  then show ?thesis
    using assms(2,3) by (simp add: SRam_step_mem)
qed

lemma SRam_no_commit:
  "\<not> (SRam_we s = 0 \<and> stim_we i = 1) \<Longrightarrow> SRam_mem (SRam_step s i) = SRam_mem s"
  by (auto simp add: SRam_step_mem)

lemma SRam_hold_after:
  "\<forall>j \<in> set js. stim_we j = stim_we i \<Longrightarrow>
     SRam_mem (SRam_run (SRam_step s i) js) = SRam_mem (SRam_step s i)"
  by (rule SRam_hold) (simp add: SRam_step_ports)

lemma SRam_frame:
  assumes "stim_addr i = a" and "a < 2 ^ nat (SRam_addr_bits s)" and "b \<noteq> a"
  shows "SRam_mem (SRam_step s i) ! b = SRam_mem s ! b"
  using assms by (simp add: SRam_step_mem Signal_eq_id)

lemma SRam_fresh_read:
  assumes "SRam_init data_bits addr_bits = Inr s"
    and "stim_addr r = a" and "a < 2 ^ nat addr_bits" and "stim_oe r = 0" and "stim_we r = 1"
    and "a \<notin> set (SRam_commits s (is @ [r]))"
  shows "SRam_data_out (SRam_run s (is @ [r])) = 0"
proof -
  have init: "SRam_mem s = replicate (2 ^ nat addr_bits) 0" "SRam_addr_bits s = addr_bits"
    using SRam_init_Inr [OF assms(1)] by simp_all
  have "SRam_mem (SRam_run s (is @ [r])) ! a = SRam_mem s ! a"
    using assms(6) by (rule SRam_untouched)
  then have cell: "SRam_mem (SRam_run s (is @ [r])) ! a = 0"
    using init assms(3) by simp
  have "SRam_data_out (SRam_run s (is @ [r])) = SRam_mem (SRam_run s (is @ [r])) ! a"
    using assms(2-5) init(2)
    by (simp add: SRam_run_append SRam_step_out SRam_run_bits Signal_eq_id)
  with cell show ?thesis
    by simp
qed

section \<open>Writing and reading sram\<close>

lemma sram_write_read:
  assumes "sram_inv s" and "a < 2 ^ nat (sram_addr_bits s)" and "v < 2 ^ nat (sram_data_bits s)"
    and "sram_we s = 0"
  shows "sram_data_out
           (sram_step
              (sram_step s \<lparr>stim_addr = a, stim_data = v, stim_oe = oe, stim_we = 1\<rparr>)
              \<lparr>stim_addr = a, stim_data = x, stim_oe = 0, stim_we = 1\<rparr>) = v"
proof -
  let ?w = "sram_step s \<lparr>stim_addr = a, stim_data = v, stim_oe = oe, stim_we = 1\<rparr>"
  have len: "a < length (sram_mem s)"
    using assms(1,2) by (simp add: sram_inv_def)
  have "sram_mem ?w = (sram_mem s)[a := v]"
    using assms by (simp add: sram_step_mem Signal_eq_id)
  then have cell: "sram_mem ?w ! a = v"
    using len by simp
  have "sram_we ?w = 1" and "sram_addr_bits ?w = sram_addr_bits s"
    by (simp_all add: sram_step_ports)
  then show ?thesis
    using cell assms(2) by (simp add: sram_step_out sram_step_mem Signal_eq_id)
qed

lemma sram_commit:
  assumes "sram_inv s" and "sram_we s = 0" and "stim_we i = 1"
  shows "Signal_eq (sram_addr_bits s) (stim_addr i) < length (sram_mem s) \<and>
         sram_mem (sram_step s i) =
           (sram_mem s)[Signal_eq (sram_addr_bits s) (stim_addr i) :=
                         Signal_eq (sram_data_bits s) (stim_data i)] \<and>
         sram_mem (sram_step s i) ! Signal_eq (sram_addr_bits s) (stim_addr i) =
           Signal_eq (sram_data_bits s) (stim_data i)"
proof -
  have "Signal_eq (sram_addr_bits s) (stim_addr i) < length (sram_mem s)"
    using assms(1) by (simp add: sram_inv_def Signal_eq_less)
  then show ?thesis
    using assms(2,3) by (simp add: sram_step_mem)
qed

lemma sram_no_commit:
  "\<not> (sram_we s = 0 \<and> stim_we i = 1) \<Longrightarrow> sram_mem (sram_step s i) = sram_mem s"
  by (auto simp add: sram_step_mem)

lemma sram_hold_after:
  "\<forall>j \<in> set js. stim_we j = stim_we i \<Longrightarrow>
     sram_mem (sram_run (sram_step s i) js) = sram_mem (sram_step s i)"
  by (rule sram_hold) (simp add: sram_step_ports)

lemma sram_frame:
  assumes "stim_addr i = a" and "a < 2 ^ nat (sram_addr_bits s)" and "b \<noteq> a"
  shows "sram_mem (sram_step s i) ! b = sram_mem s ! b"
  using assms by (simp add: sram_step_mem Signal_eq_id)

lemma sram_fresh_read:
  assumes "sram_init data_bits addr_bits = Inr s"
    and "stim_addr r = a" and "a < 2 ^ nat addr_bits" and "stim_oe r = 0" and "stim_we r = 1"
    and "a \<notin> set (sram_commits s (is @ [r]))"
  shows "sram_data_out (sram_run s (is @ [r])) = 0"
proof -
  have init: "sram_mem s = replicate (2 ^ nat addr_bits) 0" "sram_addr_bits s = addr_bits"
    using sram_init_Inr [OF assms(1)] by simp_all
  have "sram_mem (sram_run s (is @ [r])) ! a = sram_mem s ! a"
    using assms(6) by (rule sram_untouched)
  then have cell: "sram_mem (sram_run s (is @ [r])) ! a = 0"
    using init assms(3) by simp
  have "sram_data_out (sram_run s (is @ [r])) = sram_mem (sram_run s (is @ [r])) ! a"
    using assms(2-5) init(2)
    by (simp add: sram_run_append sram_step_out sram_run_bits Signal_eq_id)
  with cell show ?thesis
    by simp
qed

section \<open>Writing and reading EEProm\<close>

lemma EEProm_write_read:
  assumes "EEProm_inv s" and "a < 2 ^ nat (EEProm_a_bits s)" and "v < 2 ^ nat (EEProm_io_bits s)"
    and "EEProm_we s = 0"
  shows "EEProm_io_out
           (EEProm_step
              (EEProm_step s \<lparr>stim_addr = a, stim_data = v, stim_oe = oe, stim_we = 1\<rparr>)
              \<lparr>stim_addr = a, stim_data = x, stim_oe = 0, stim_we = 1\<rparr>) = v"
proof -
  let ?w = "EEProm_step s \<lparr>stim_addr = a, stim_data = v, stim_oe = oe, stim_we = 1\<rparr>"
  have len: "a < length (EEProm_mem s)"
    using assms(1,2) by (simp add: EEProm_inv_def)
  have "EEProm_mem ?w = (EEProm_mem s)[a := v]"
    using assms by (simp add: EEProm_step_mem Signal_eq_id)
  then have cell: "EEProm_mem ?w ! a = v"
    using len by simp
  have "EEProm_we ?w = 1" and "EEProm_a_bits ?w = EEProm_a_bits s"
    by (simp_all add: EEProm_step_ports)
  then show ?thesis
    using cell assms(2) by (simp add: EEProm_step_out EEProm_step_mem Signal_eq_id)
qed

lemma EEProm_commit:
  assumes "EEProm_inv s" and "EEProm_we s = 0" and "stim_we i = 1"
  shows "Signal_eq (EEProm_a_bits s) (stim_addr i) < length (EEProm_mem s) \<and>
         EEProm_mem (EEProm_step s i) =
           (EEProm_mem s)[Signal_eq (EEProm_a_bits s) (stim_addr i) :=
                         Signal_eq (EEProm_io_bits s) (stim_data i)] \<and>
         EEProm_mem (EEProm_step s i) ! Signal_eq (EEProm_a_bits s) (stim_addr i) =
           Signal_eq (EEProm_io_bits s) (stim_data i)"
proof -
  have "Signal_eq (EEProm_a_bits s) (stim_addr i) < length (EEProm_mem s)"
    using assms(1) by (simp add: EEProm_inv_def Signal_eq_less)
  then show ?thesis
    using assms(2,3) by (simp add: EEProm_step_mem)
qed

lemma EEProm_no_commit:
  "\<not> (EEProm_we s = 0 \<and> stim_we i = 1) \<Longrightarrow> EEProm_mem (EEProm_step s i) = EEProm_mem s"
  by (auto simp add: EEProm_step_mem)

lemma EEProm_hold_after:
  "\<forall>j \<in> set js. stim_we j = stim_we i \<Longrightarrow>
     EEProm_mem (EEProm_run (EEProm_step s i) js) = EEProm_mem (EEProm_step s i)"
  by (rule EEProm_hold) (simp add: EEProm_step_ports)

lemma EEProm_frame:
  assumes "stim_addr i = a" and "a < 2 ^ nat (EEProm_a_bits s)" and "b \<noteq> a"
  shows "EEProm_mem (EEProm_step s i) ! b = EEProm_mem s ! b"
  using assms by (simp add: EEProm_step_mem Signal_eq_id)

lemma EEProm_fresh_read:
  assumes "EEProm_init data_bits addr_bits = Inr s"
    and "stim_addr r = a" and "a < 2 ^ nat addr_bits" and "stim_oe r = 0" and "stim_we r = 1"
    and "a \<notin> set (EEProm_commits s (is @ [r]))"
  shows "EEProm_io_out (EEProm_run s (is @ [r])) = 0"
proof -
  have init: "EEProm_mem s = replicate (2 ^ nat addr_bits) 0" "EEProm_a_bits s = addr_bits"
    using EEProm_init_Inr [OF assms(1)] by simp_all
  have "EEProm_mem (EEProm_run s (is @ [r])) ! a = EEProm_mem s ! a"
    using assms(6) by (rule EEProm_untouched)
  then have cell: "EEProm_mem (EEProm_run s (is @ [r])) ! a = 0"
    using init assms(3) by simp
  have "EEProm_io_out (EEProm_run s (is @ [r])) = EEProm_mem (EEProm_run s (is @ [r])) ! a"
    using assms(2-5) init(2)
    by (simp add: EEProm_run_append EEProm_step_out EEProm_run_bits Signal_eq_id)
  with cell show ?thesis
    by simp
qed

section \<open>Steps of TransparentLatch\<close>

lemmas TransparentLatch_defs = TransparentLatch_step_def TransparentLatch_drive_def TransparentLatch_comb_def TransparentLatch_le_clk_def Mux_def Let_def

lemma TransparentLatch_comb_q:
  "TransparentLatch_q (TransparentLatch_comb s) =
     (if TransparentLatch_oe s = 1 then 0
      else if TransparentLatch_le s = 1 then TransparentLatch_d s
      else TransparentLatch_internal_reg s)"
  using level_cases [of "TransparentLatch_oe s"]
  by (auto simp add: TransparentLatch_comb_def Mux_def Let_def pass_enable_iff)

lemma TransparentLatch_step_ports:
  "TransparentLatch_le (TransparentLatch_step s i) = stim_le i"
  "TransparentLatch_oe (TransparentLatch_step s i) = stim_latch_oe i"
  "TransparentLatch_d (TransparentLatch_step s i) = Signal_eq (TransparentLatch_bits s) (stim_d i)"
  "TransparentLatch_bits (TransparentLatch_step s i) = TransparentLatch_bits s"
  by (simp_all add: TransparentLatch_defs)

lemma TransparentLatch_step_reg:
  "TransparentLatch_internal_reg (TransparentLatch_step s i) =
     (if TransparentLatch_le s = 1 \<and> stim_le i = 0
      then Signal_eq (TransparentLatch_bits s) (stim_d i)
      else TransparentLatch_internal_reg s)"
  by (simp add: TransparentLatch_defs)

lemma TransparentLatch_step_q:
  "TransparentLatch_q (TransparentLatch_step s i) =
     (if stim_latch_oe i = 1 then 0
      else if stim_le i = 1 then Signal_eq (TransparentLatch_bits s) (stim_d i)
      else TransparentLatch_internal_reg (TransparentLatch_step s i))"
  using level_cases [of "stim_latch_oe i"]
  by (auto simp add: TransparentLatch_defs pass_enable_iff)

lemma TransparentLatch_power_on:
  "TransparentLatch_init bits = Inr l \<Longrightarrow>
     TransparentLatch_internal_reg (TransparentLatch_elaborate l) = 0 \<and> TransparentLatch_le (TransparentLatch_elaborate l) = 0 \<and>
     TransparentLatch_bits (TransparentLatch_elaborate l) = bits"
  by (auto simp add: TransparentLatch_init_def TransparentLatch_elaborate_def py_assert_def split: if_splits)

lemma TransparentLatch_hold:
  "\<forall>j \<in> set js. stim_le j = TransparentLatch_le s \<Longrightarrow>
     TransparentLatch_internal_reg (TransparentLatch_run s js) = TransparentLatch_internal_reg s"
proof (induction js arbitrary: s)
  case Nil
  then show ?case by simp
next
  case (Cons j js)
  have same: "stim_le j = TransparentLatch_le s"
    using Cons.prems by simp
  then have "TransparentLatch_internal_reg (TransparentLatch_step s j) = TransparentLatch_internal_reg s"
    by (auto simp add: TransparentLatch_step_reg)
  moreover have "TransparentLatch_internal_reg (TransparentLatch_run (TransparentLatch_step s j) js) = TransparentLatch_internal_reg (TransparentLatch_step s j)"
    using Cons.prems same by (intro Cons.IH) (simp add: TransparentLatch_step_ports)
  ultimately show ?case
    by simp
qed

lemma TransparentLatch_hold_after:
  "\<forall>j \<in> set js. stim_le j = stim_le i \<Longrightarrow>
     TransparentLatch_internal_reg (TransparentLatch_run (TransparentLatch_step s i) js) = TransparentLatch_internal_reg (TransparentLatch_step s i)"
  by (rule TransparentLatch_hold) (simp add: TransparentLatch_step_ports)

section \<open>Steps of transparent_latch\<close>

lemmas transparent_latch_defs = transparent_latch_step_def transparent_latch_drive_def transparent_latch_comb_def transparent_latch_le_clk_def Mux_def Let_def

lemma transparent_latch_comb_q:
  "transparent_latch_q (transparent_latch_comb s) =
     (if transparent_latch_oe s = 1 then 0
      else if transparent_latch_le s = 1 then transparent_latch_d s
      else transparent_latch_internal_reg s)"
  using level_cases [of "transparent_latch_oe s"]
  by (auto simp add: transparent_latch_comb_def Mux_def Let_def pass_enable_iff)

lemma transparent_latch_step_ports:
  "transparent_latch_le (transparent_latch_step s i) = stim_le i"
  "transparent_latch_oe (transparent_latch_step s i) = stim_latch_oe i"
  "transparent_latch_d (transparent_latch_step s i) = Signal_eq (transparent_latch_bits s) (stim_d i)"
  "transparent_latch_bits (transparent_latch_step s i) = transparent_latch_bits s"
  by (simp_all add: transparent_latch_defs)

lemma transparent_latch_step_reg:
  "transparent_latch_internal_reg (transparent_latch_step s i) =
     (if transparent_latch_le s = 1 \<and> stim_le i = 0
      then Signal_eq (transparent_latch_bits s) (stim_d i)
      else transparent_latch_internal_reg s)"
  by (simp add: transparent_latch_defs)

lemma transparent_latch_step_q:
  "transparent_latch_q (transparent_latch_step s i) =
     (if stim_latch_oe i = 1 then 0
      else if stim_le i = 1 then Signal_eq (transparent_latch_bits s) (stim_d i)
      else transparent_latch_internal_reg (transparent_latch_step s i))"
  using level_cases [of "stim_latch_oe i"]
  by (auto simp add: transparent_latch_defs pass_enable_iff)

lemma transparent_latch_power_on:
  "transparent_latch_init bits = Inr l \<Longrightarrow>
     transparent_latch_internal_reg (transparent_latch_elaborate l) = 0 \<and> transparent_latch_le (transparent_latch_elaborate l) = 0 \<and>
     transparent_latch_bits (transparent_latch_elaborate l) = bits"
  by (auto simp add: transparent_latch_init_def transparent_latch_elaborate_def py_assert_def split: if_splits)

lemma transparent_latch_hold:
  "\<forall>j \<in> set js. stim_le j = transparent_latch_le s \<Longrightarrow>
     transparent_latch_internal_reg (transparent_latch_run s js) = transparent_latch_internal_reg s"
proof (induction js arbitrary: s)
  case Nil
  then show ?case by simp
next
  case (Cons j js)
  have same: "stim_le j = transparent_latch_le s"
    using Cons.prems by simp
  then have "transparent_latch_internal_reg (transparent_latch_step s j) = transparent_latch_internal_reg s"
    by (auto simp add: transparent_latch_step_reg)
  moreover have "transparent_latch_internal_reg (transparent_latch_run (transparent_latch_step s j) js) = transparent_latch_internal_reg (transparent_latch_step s j)"
    using Cons.prems same by (intro Cons.IH) (simp add: transparent_latch_step_ports)
  ultimately show ?case
    by simp
qed

lemma transparent_latch_hold_after:
  "\<forall>j \<in> set js. stim_le j = stim_le i \<Longrightarrow>
     transparent_latch_internal_reg (transparent_latch_run (transparent_latch_step s i) js) = transparent_latch_internal_reg (transparent_latch_step s i)"
  by (rule transparent_latch_hold) (simp add: transparent_latch_step_ports)

section \<open>The claims on the memory devices\<close>

lemmas sim_devices =
  SRam_16_4_def sram_16_2_def EEProm_16_4_def SRam_init_def sram_init_def EEProm_init_def
  py_assert_def

text \<open>
  C1.  Let the device be in a state with \<^verbatim>\<open>_we\<close> at 0.  Driving \<^verbatim>\<open>_we\<close> to 1 with the
  address port at \<open>a\<close> and the data input at \<open>v\<close> (both within the port widths), then
  evaluating with the address at \<open>a\<close>, \<^verbatim>\<open>_oe\<close> at 0 and \<^verbatim>\<open>_we\<close> at 1, leaves exactly
  \<open>v\<close> on the data output.  This holds for the class of SRam.py, of sram.py and of
  eeprom.py, whatever \<^verbatim>\<open>_oe\<close> was during the write and whatever the data input is
  during the read.
\<close>

theorem C1_write_then_read:
  "(SRam_inv s1 \<and> a1 < 2 ^ nat (SRam_addr_bits s1) \<and> v1 < 2 ^ nat (SRam_data_bits s1) \<and>
    SRam_we s1 = 0 \<longrightarrow>
      SRam_data_out
        (SRam_step
           (SRam_step s1 \<lparr>stim_addr = a1, stim_data = v1, stim_oe = oe1, stim_we = 1\<rparr>)
           \<lparr>stim_addr = a1, stim_data = x1, stim_oe = 0, stim_we = 1\<rparr>) = v1) \<and>
   (sram_inv s2 \<and> a2 < 2 ^ nat (sram_addr_bits s2) \<and> v2 < 2 ^ nat (sram_data_bits s2) \<and>
    sram_we s2 = 0 \<longrightarrow>
      sram_data_out
        (sram_step
           (sram_step s2 \<lparr>stim_addr = a2, stim_data = v2, stim_oe = oe2, stim_we = 1\<rparr>)
           \<lparr>stim_addr = a2, stim_data = x2, stim_oe = 0, stim_we = 1\<rparr>) = v2) \<and>
   (EEProm_inv s3 \<and> a3 < 2 ^ nat (EEProm_a_bits s3) \<and> v3 < 2 ^ nat (EEProm_io_bits s3) \<and>
    EEProm_we s3 = 0 \<longrightarrow>
      EEProm_io_out
        (EEProm_step
           (EEProm_step s3 \<lparr>stim_addr = a3, stim_data = v3, stim_oe = oe3, stim_we = 1\<rparr>)
           \<lparr>stim_addr = a3, stim_data = x3, stim_oe = 0, stim_we = 1\<rparr>) = v3)"
  by (simp add: SRam_write_read sram_write_read EEProm_write_read)

theorem C1_write_then_read_witness:
  "(SRam_inv SRam_16_4 \<and> (3 :: nat) < 2 ^ nat (SRam_addr_bits SRam_16_4) \<and>
    (0x1111 :: nat) < 2 ^ nat (SRam_data_bits SRam_16_4) \<and> SRam_we SRam_16_4 = 0 \<and>
    SRam_data_out
      (SRam_step
         (SRam_step SRam_16_4 \<lparr>stim_addr = 3, stim_data = 0x1111, stim_oe = 1, stim_we = 1\<rparr>)
         \<lparr>stim_addr = 3, stim_data = 0, stim_oe = 0, stim_we = 1\<rparr>) = 0x1111) \<and>
   (sram_inv sram_16_2 \<and> (3 :: nat) < 2 ^ nat (sram_addr_bits sram_16_2) \<and>
    (0x2222 :: nat) < 2 ^ nat (sram_data_bits sram_16_2) \<and> sram_we sram_16_2 = 0 \<and>
    sram_data_out
      (sram_step
         (sram_step sram_16_2 \<lparr>stim_addr = 3, stim_data = 0x2222, stim_oe = 0, stim_we = 1\<rparr>)
         \<lparr>stim_addr = 3, stim_data = 7, stim_oe = 0, stim_we = 1\<rparr>) = 0x2222) \<and>
   (EEProm_inv EEProm_16_4 \<and> (15 :: nat) < 2 ^ nat (EEProm_a_bits EEProm_16_4) \<and>
    (0xFFFF :: nat) < 2 ^ nat (EEProm_io_bits EEProm_16_4) \<and> EEProm_we EEProm_16_4 = 0 \<and>
    EEProm_io_out
      (EEProm_step
         (EEProm_step EEProm_16_4
            \<lparr>stim_addr = 15, stim_data = 0xFFFF, stim_oe = 1, stim_we = 1\<rparr>)
         \<lparr>stim_addr = 15, stim_data = 0, stim_oe = 0, stim_we = 1\<rparr>) = 0xFFFF)"
  using C1_write_then_read
    [where ?s1.0 = SRam_16_4 and ?a1.0 = 3 and ?v1.0 = "0x1111" and ?oe1.0 = 1 and ?x1.0 = 0
       and ?s2.0 = sram_16_2 and ?a2.0 = 3 and ?v2.0 = "0x2222" and ?oe2.0 = 0 and ?x2.0 = 7
       and ?s3.0 = EEProm_16_4 and ?a3.0 = 15 and ?v3.0 = "0xFFFF" and ?oe3.0 = 1
       and ?x3.0 = 0]
  by (simp add: sim_devices SRam_inv_def sram_inv_def EEProm_inv_def)

text \<open>
  The test bench of sram.py on \<^verbatim>\<open>SRam(16, 2)\<close>, which prints an error unless it reads
  back \<open>0x1111\<close> from address 0 and \<open>0x2222\<close> from address 1: it reads them back.
\<close>

lemma sram_sim_reads:
  "sram_data_out
     (sram_run sram_16_2
        [\<lparr>stim_addr = 0, stim_data = 0x1111, stim_oe = 1, stim_we = 0\<rparr>,
         \<lparr>stim_addr = 0, stim_data = 0x1111, stim_oe = 1, stim_we = 1\<rparr>,
         \<lparr>stim_addr = 1, stim_data = 0x2222, stim_oe = 1, stim_we = 0\<rparr>,
         \<lparr>stim_addr = 1, stim_data = 0x2222, stim_oe = 1, stim_we = 1\<rparr>,
         \<lparr>stim_addr = 0, stim_data = 0, stim_oe = 0, stim_we = 1\<rparr>]) = 0x1111 \<and>
   sram_data_out
     (sram_run sram_16_2
        [\<lparr>stim_addr = 0, stim_data = 0x1111, stim_oe = 1, stim_we = 0\<rparr>,
         \<lparr>stim_addr = 0, stim_data = 0x1111, stim_oe = 1, stim_we = 1\<rparr>,
         \<lparr>stim_addr = 1, stim_data = 0x2222, stim_oe = 1, stim_we = 0\<rparr>,
         \<lparr>stim_addr = 1, stim_data = 0x2222, stim_oe = 1, stim_we = 1\<rparr>,
         \<lparr>stim_addr = 0, stim_data = 0, stim_oe = 0, stim_we = 1\<rparr>,
         \<lparr>stim_addr = 0, stim_data = 0, stim_oe = 1, stim_we = 1\<rparr>,
         \<lparr>stim_addr = 1, stim_data = 0, stim_oe = 0, stim_we = 1\<rparr>]) = 0x2222"
  by (simp add: sim_devices sram_defs Signal_eq_def)

text \<open>
  C2.  In every state the combinational statements put the addressed cell on the data
  output if \<^verbatim>\<open>_oe\<close> is 0 and \<^verbatim>\<open>_we\<close> is 1, and the all-zero pattern in every other
  case, that is whenever \<^verbatim>\<open>_we\<close> is 0 or \<^verbatim>\<open>_oe\<close> is 1, whatever the address and the
  cells.  So the output equals the addressed cell exactly when the device is read in this
  way, but for a cell that holds the all-zero pattern itself, which the quiescent output
  equals as well.  The same case distinction gives the output after an evaluation step,
  for every state and every stimulus.
\<close>

theorem C2_output_path:
  "((SRam_data_out (SRam_comb s1) =
        (if SRam_oe s1 = 0 \<and> SRam_we s1 = 1 then SRam_mem s1 ! SRam_addr s1 else 0)) \<and>
     (SRam_we s1 = 0 \<or> SRam_oe s1 = 1 \<longrightarrow> SRam_data_out (SRam_comb s1) = 0) \<and>
     ((SRam_data_out (SRam_comb s1) = SRam_mem s1 ! SRam_addr s1) =
        (SRam_oe s1 = 0 \<and> SRam_we s1 = 1 \<or> SRam_mem s1 ! SRam_addr s1 = 0)) \<and>
     (SRam_data_out (SRam_step s1 i) =
        (if stim_oe i = 0 \<and> stim_we i = 1
         then SRam_mem (SRam_step s1 i) ! SRam_addr (SRam_step s1 i) else 0))) \<and>
   ((sram_data_out (sram_comb s2) =
        (if sram_oe s2 = 0 \<and> sram_we s2 = 1 then sram_mem s2 ! sram_addr s2 else 0)) \<and>
     (sram_we s2 = 0 \<or> sram_oe s2 = 1 \<longrightarrow> sram_data_out (sram_comb s2) = 0) \<and>
     ((sram_data_out (sram_comb s2) = sram_mem s2 ! sram_addr s2) =
        (sram_oe s2 = 0 \<and> sram_we s2 = 1 \<or> sram_mem s2 ! sram_addr s2 = 0)) \<and>
     (sram_data_out (sram_step s2 i) =
        (if stim_oe i = 0 \<and> stim_we i = 1
         then sram_mem (sram_step s2 i) ! sram_addr (sram_step s2 i) else 0))) \<and>
   ((EEProm_io_out (EEProm_comb s3) =
        (if EEProm_oe s3 = 0 \<and> EEProm_we s3 = 1 then EEProm_mem s3 ! EEProm_a s3 else 0)) \<and>
     (EEProm_we s3 = 0 \<or> EEProm_oe s3 = 1 \<longrightarrow> EEProm_io_out (EEProm_comb s3) = 0) \<and>
     ((EEProm_io_out (EEProm_comb s3) = EEProm_mem s3 ! EEProm_a s3) =
        (EEProm_oe s3 = 0 \<and> EEProm_we s3 = 1 \<or> EEProm_mem s3 ! EEProm_a s3 = 0)) \<and>
     (EEProm_io_out (EEProm_step s3 i) =
        (if stim_oe i = 0 \<and> stim_we i = 1
         then EEProm_mem (EEProm_step s3 i) ! EEProm_a (EEProm_step s3 i) else 0)))"
proof -
  have a: "((SRam_data_out (SRam_comb s1) =
           (if SRam_oe s1 = 0 \<and> SRam_we s1 = 1 then SRam_mem s1 ! SRam_addr s1 else 0)) \<and>
        (SRam_we s1 = 0 \<or> SRam_oe s1 = 1 \<longrightarrow> SRam_data_out (SRam_comb s1) = 0) \<and>
        ((SRam_data_out (SRam_comb s1) = SRam_mem s1 ! SRam_addr s1) =
           (SRam_oe s1 = 0 \<and> SRam_we s1 = 1 \<or> SRam_mem s1 ! SRam_addr s1 = 0)) \<and>
        (SRam_data_out (SRam_step s1 i) =
           (if stim_oe i = 0 \<and> stim_we i = 1
            then SRam_mem (SRam_step s1 i) ! SRam_addr (SRam_step s1 i) else 0)))"
    using level_cases [of "SRam_oe s1"] level_cases [of "SRam_we s1"]
    by (auto simp add: SRam_comb_out SRam_step_out SRam_step_ports)
  have b: "((sram_data_out (sram_comb s2) =
           (if sram_oe s2 = 0 \<and> sram_we s2 = 1 then sram_mem s2 ! sram_addr s2 else 0)) \<and>
        (sram_we s2 = 0 \<or> sram_oe s2 = 1 \<longrightarrow> sram_data_out (sram_comb s2) = 0) \<and>
        ((sram_data_out (sram_comb s2) = sram_mem s2 ! sram_addr s2) =
           (sram_oe s2 = 0 \<and> sram_we s2 = 1 \<or> sram_mem s2 ! sram_addr s2 = 0)) \<and>
        (sram_data_out (sram_step s2 i) =
           (if stim_oe i = 0 \<and> stim_we i = 1
            then sram_mem (sram_step s2 i) ! sram_addr (sram_step s2 i) else 0)))"
    using level_cases [of "sram_oe s2"] level_cases [of "sram_we s2"]
    by (auto simp add: sram_comb_out sram_step_out sram_step_ports)
  have c: "((EEProm_io_out (EEProm_comb s3) =
           (if EEProm_oe s3 = 0 \<and> EEProm_we s3 = 1 then EEProm_mem s3 ! EEProm_a s3 else 0)) \<and>
        (EEProm_we s3 = 0 \<or> EEProm_oe s3 = 1 \<longrightarrow> EEProm_io_out (EEProm_comb s3) = 0) \<and>
        ((EEProm_io_out (EEProm_comb s3) = EEProm_mem s3 ! EEProm_a s3) =
           (EEProm_oe s3 = 0 \<and> EEProm_we s3 = 1 \<or> EEProm_mem s3 ! EEProm_a s3 = 0)) \<and>
        (EEProm_io_out (EEProm_step s3 i) =
           (if stim_oe i = 0 \<and> stim_we i = 1
            then EEProm_mem (EEProm_step s3 i) ! EEProm_a (EEProm_step s3 i) else 0)))"
    using level_cases [of "EEProm_oe s3"] level_cases [of "EEProm_we s3"]
    by (auto simp add: EEProm_comb_out EEProm_step_out EEProm_step_ports)
  show ?thesis
    by (rule conjI, rule a, rule conjI, rule b, rule c)
qed

text \<open>
  At a cell that holds \<open>0x1111\<close> the output is \<open>0x1111\<close> when reading and 0 with
  \<^verbatim>\<open>_we\<close> at 0.
\<close>

theorem C2_output_path_witness:
  "SRam_data_out (SRam_comb (SRam_16_4\<lparr>SRam_mem := [0x1111], SRam_oe := 0, SRam_we := 1\<rparr>))
     = 0x1111 \<and>
   SRam_data_out (SRam_comb (SRam_16_4\<lparr>SRam_mem := [0x1111], SRam_oe := 0, SRam_we := 0\<rparr>))
     = 0 \<and>
   sram_data_out (sram_comb (sram_16_2\<lparr>sram_mem := [0x1111], sram_oe := 1, sram_we := 1\<rparr>))
     = 0 \<and>
   EEProm_io_out
     (EEProm_comb (EEProm_16_4\<lparr>EEProm_mem := [0x1111], EEProm_oe := 1, EEProm_we := 0\<rparr>))
     = 0"
  using
    C2_output_path
      [where ?s1.0 = "SRam_16_4\<lparr>SRam_mem := [0x1111], SRam_oe := 0, SRam_we := 1\<rparr>"
         and ?s2.0 = "sram_16_2\<lparr>sram_mem := [0x1111], sram_oe := 1, sram_we := 1\<rparr>"
         and ?s3.0 = "EEProm_16_4\<lparr>EEProm_mem := [0x1111], EEProm_oe := 1, EEProm_we := 0\<rparr>"]
    C2_output_path
      [where ?s1.0 = "SRam_16_4\<lparr>SRam_mem := [0x1111], SRam_oe := 0, SRam_we := 0\<rparr>"]
  by (simp add: sim_devices)

text \<open>
  C3.  The cells change once for each 0-to-1 transition of \<^verbatim>\<open>_we\<close> and at no other
  step.  On a step that takes \<^verbatim>\<open>_we\<close> from 0 to 1 the cell at the address present in
  that step becomes the data input present in that step and the array is otherwise as
  before; on a step that is not such a transition the array is unchanged; and after any
  step, holding \<^verbatim>\<open>_we\<close> at the level of that step over any number of further steps
  changes no cell, whatever addresses and data are driven.
\<close>

theorem C3_commit_on_rising_edge:
  "((SRam_inv s1 \<and> SRam_we s1 = 0 \<and> stim_we i = 1 \<longrightarrow>
      Signal_eq (SRam_addr_bits s1) (stim_addr i) < length (SRam_mem s1) \<and>
      SRam_mem (SRam_step s1 i) =
        (SRam_mem s1)[Signal_eq (SRam_addr_bits s1) (stim_addr i) :=
                        Signal_eq (SRam_data_bits s1) (stim_data i)] \<and>
      SRam_mem (SRam_step s1 i) ! Signal_eq (SRam_addr_bits s1) (stim_addr i) =
        Signal_eq (SRam_data_bits s1) (stim_data i)) \<and>
    (\<not> (SRam_we s1 = 0 \<and> stim_we i = 1) \<longrightarrow> SRam_mem (SRam_step s1 i) = SRam_mem s1) \<and>
    ((\<forall>j \<in> set js. stim_we j = stim_we i) \<longrightarrow>
      SRam_mem (SRam_run (SRam_step s1 i) js) = SRam_mem (SRam_step s1 i))) \<and>
   ((sram_inv s2 \<and> sram_we s2 = 0 \<and> stim_we i = 1 \<longrightarrow>
      Signal_eq (sram_addr_bits s2) (stim_addr i) < length (sram_mem s2) \<and>
      sram_mem (sram_step s2 i) =
        (sram_mem s2)[Signal_eq (sram_addr_bits s2) (stim_addr i) :=
                        Signal_eq (sram_data_bits s2) (stim_data i)] \<and>
      sram_mem (sram_step s2 i) ! Signal_eq (sram_addr_bits s2) (stim_addr i) =
        Signal_eq (sram_data_bits s2) (stim_data i)) \<and>
    (\<not> (sram_we s2 = 0 \<and> stim_we i = 1) \<longrightarrow> sram_mem (sram_step s2 i) = sram_mem s2) \<and>
    ((\<forall>j \<in> set js. stim_we j = stim_we i) \<longrightarrow>
      sram_mem (sram_run (sram_step s2 i) js) = sram_mem (sram_step s2 i))) \<and>
   ((EEProm_inv s3 \<and> EEProm_we s3 = 0 \<and> stim_we i = 1 \<longrightarrow>
      Signal_eq (EEProm_a_bits s3) (stim_addr i) < length (EEProm_mem s3) \<and>
      EEProm_mem (EEProm_step s3 i) =
        (EEProm_mem s3)[Signal_eq (EEProm_a_bits s3) (stim_addr i) :=
                          Signal_eq (EEProm_io_bits s3) (stim_data i)] \<and>
      EEProm_mem (EEProm_step s3 i) ! Signal_eq (EEProm_a_bits s3) (stim_addr i) =
        Signal_eq (EEProm_io_bits s3) (stim_data i)) \<and>
    (\<not> (EEProm_we s3 = 0 \<and> stim_we i = 1) \<longrightarrow>
      EEProm_mem (EEProm_step s3 i) = EEProm_mem s3) \<and>
    ((\<forall>j \<in> set js. stim_we j = stim_we i) \<longrightarrow>
      EEProm_mem (EEProm_run (EEProm_step s3 i) js) = EEProm_mem (EEProm_step s3 i)))"
proof -
  have a: "SRam_inv s1 \<and> SRam_we s1 = 0 \<and> stim_we i = 1 \<longrightarrow>
      Signal_eq (SRam_addr_bits s1) (stim_addr i) < length (SRam_mem s1) \<and>
      SRam_mem (SRam_step s1 i) =
        (SRam_mem s1)[Signal_eq (SRam_addr_bits s1) (stim_addr i) :=
                        Signal_eq (SRam_data_bits s1) (stim_data i)] \<and>
      SRam_mem (SRam_step s1 i) ! Signal_eq (SRam_addr_bits s1) (stim_addr i) =
        Signal_eq (SRam_data_bits s1) (stim_data i)"
    using SRam_commit [of s1 i] by blast
  have b: "sram_inv s2 \<and> sram_we s2 = 0 \<and> stim_we i = 1 \<longrightarrow>
      Signal_eq (sram_addr_bits s2) (stim_addr i) < length (sram_mem s2) \<and>
      sram_mem (sram_step s2 i) =
        (sram_mem s2)[Signal_eq (sram_addr_bits s2) (stim_addr i) :=
                        Signal_eq (sram_data_bits s2) (stim_data i)] \<and>
      sram_mem (sram_step s2 i) ! Signal_eq (sram_addr_bits s2) (stim_addr i) =
        Signal_eq (sram_data_bits s2) (stim_data i)"
    using sram_commit [of s2 i] by blast
  have c: "EEProm_inv s3 \<and> EEProm_we s3 = 0 \<and> stim_we i = 1 \<longrightarrow>
      Signal_eq (EEProm_a_bits s3) (stim_addr i) < length (EEProm_mem s3) \<and>
      EEProm_mem (EEProm_step s3 i) =
        (EEProm_mem s3)[Signal_eq (EEProm_a_bits s3) (stim_addr i) :=
                          Signal_eq (EEProm_io_bits s3) (stim_data i)] \<and>
      EEProm_mem (EEProm_step s3 i) ! Signal_eq (EEProm_a_bits s3) (stim_addr i) =
        Signal_eq (EEProm_io_bits s3) (stim_data i)"
    using EEProm_commit [of s3 i] by blast
  have d: "\<not> (SRam_we s1 = 0 \<and> stim_we i = 1) \<longrightarrow> SRam_mem (SRam_step s1 i) = SRam_mem s1"
    "\<not> (sram_we s2 = 0 \<and> stim_we i = 1) \<longrightarrow> sram_mem (sram_step s2 i) = sram_mem s2"
    "\<not> (EEProm_we s3 = 0 \<and> stim_we i = 1) \<longrightarrow> EEProm_mem (EEProm_step s3 i) = EEProm_mem s3"
    using SRam_no_commit [of s1 i] sram_no_commit [of s2 i] EEProm_no_commit [of s3 i]
    by blast+
  have e: "(\<forall>j \<in> set js. stim_we j = stim_we i) \<longrightarrow>
      SRam_mem (SRam_run (SRam_step s1 i) js) = SRam_mem (SRam_step s1 i)"
    "(\<forall>j \<in> set js. stim_we j = stim_we i) \<longrightarrow>
      sram_mem (sram_run (sram_step s2 i) js) = sram_mem (sram_step s2 i)"
    "(\<forall>j \<in> set js. stim_we j = stim_we i) \<longrightarrow>
      EEProm_mem (EEProm_run (EEProm_step s3 i) js) = EEProm_mem (EEProm_step s3 i)"
    using SRam_hold_after [of js i s1] sram_hold_after [of js i s2]
      EEProm_hold_after [of js i s3]
    by blast+
  from a b c d e show ?thesis
    by (intro conjI)
qed

text \<open>
  One rising edge of \<^verbatim>\<open>_we\<close> at address 3 with data \<open>0x1111\<close>, then \<^verbatim>\<open>_we\<close> held at 1
  while other addresses and data are driven: cell 3 holds \<open>0x1111\<close> and nothing else
  was stored.
\<close>

theorem C3_commit_on_rising_edge_witness:
  "SRam_inv SRam_16_4 \<and> SRam_we SRam_16_4 = 0 \<and>
   SRam_mem
     (SRam_run (SRam_step SRam_16_4
                  \<lparr>stim_addr = 3, stim_data = 0x1111, stim_oe = 1, stim_we = 1\<rparr>)
        [\<lparr>stim_addr = 4, stim_data = 0x2222, stim_oe = 1, stim_we = 1\<rparr>,
         \<lparr>stim_addr = 5, stim_data = 0x3333, stim_oe = 0, stim_we = 1\<rparr>]) =
     (replicate 16 0)[3 := 0x1111] \<and>
   sram_mem (sram_step sram_16_2 \<lparr>stim_addr = 3, stim_data = 0x1111, stim_oe = 1, stim_we = 0\<rparr>)
     = replicate 4 0 \<and>
   EEProm_mem
     (EEProm_step EEProm_16_4 \<lparr>stim_addr = 3, stim_data = 0x1111, stim_oe = 1, stim_we = 1\<rparr>) ! 3
     = 0x1111"
  using C3_commit_on_rising_edge
    [where ?s1.0 = SRam_16_4 and ?s2.0 = sram_16_2 and ?s3.0 = EEProm_16_4
       and i = "\<lparr>stim_addr = 3, stim_data = 0x1111, stim_oe = 1, stim_we = 1\<rparr>"
       and js = "[\<lparr>stim_addr = 4, stim_data = 0x2222, stim_oe = 1, stim_we = 1\<rparr>,
                  \<lparr>stim_addr = 5, stim_data = 0x3333, stim_oe = 0, stim_we = 1\<rparr>]"]
    C3_commit_on_rising_edge
    [where ?s2.0 = sram_16_2
       and i = "\<lparr>stim_addr = 3, stim_data = 0x1111, stim_oe = 1, stim_we = 0\<rparr>"]
  by (simp add: sim_devices SRam_inv_def EEProm_inv_def Signal_eq_def)

text \<open>
  C4.  A write committed at address \<open>a\<close> (a step that takes \<^verbatim>\<open>_we\<close> from 0 to 1 with
  the address port at \<open>a\<close>) leaves the cell at every other address \<open>b\<close> as it was.
\<close>

theorem C4_write_frame:
  "(SRam_we s1 = 0 \<and> stim_we i = 1 \<and> stim_addr i = a \<and> a < 2 ^ nat (SRam_addr_bits s1) \<and>
    b \<noteq> a \<longrightarrow> SRam_mem (SRam_step s1 i) ! b = SRam_mem s1 ! b) \<and>
   (sram_we s2 = 0 \<and> stim_we i = 1 \<and> stim_addr i = a \<and> a < 2 ^ nat (sram_addr_bits s2) \<and>
    b \<noteq> a \<longrightarrow> sram_mem (sram_step s2 i) ! b = sram_mem s2 ! b) \<and>
   (EEProm_we s3 = 0 \<and> stim_we i = 1 \<and> stim_addr i = a \<and> a < 2 ^ nat (EEProm_a_bits s3) \<and>
    b \<noteq> a \<longrightarrow> EEProm_mem (EEProm_step s3 i) ! b = EEProm_mem s3 ! b)"
  using SRam_frame [of i a s1 b] sram_frame [of i a s2 b] EEProm_frame [of i a s3 b]
  by blast

text \<open>A write of \<open>0x2222\<close> at address 1 leaves the \<open>0x1111\<close> stored at address 0.\<close>

theorem C4_write_frame_witness:
  "SRam_mem
     (SRam_step (SRam_16_4\<lparr>SRam_mem := (replicate 16 0)[0 := 0x1111]\<rparr>)
        \<lparr>stim_addr = 1, stim_data = 0x2222, stim_oe = 1, stim_we = 1\<rparr>) ! 0 = 0x1111 \<and>
   sram_mem
     (sram_step (sram_16_2\<lparr>sram_mem := (replicate 4 0)[0 := 0x1111]\<rparr>)
        \<lparr>stim_addr = 1, stim_data = 0x2222, stim_oe = 1, stim_we = 1\<rparr>) ! 0 = 0x1111 \<and>
   EEProm_mem
     (EEProm_step (EEProm_16_4\<lparr>EEProm_mem := (replicate 16 0)[0 := 0x1111]\<rparr>)
        \<lparr>stim_addr = 1, stim_data = 0x2222, stim_oe = 1, stim_we = 1\<rparr>) ! 0 = 0x1111"
  using C4_write_frame
    [where ?s1.0 = "SRam_16_4\<lparr>SRam_mem := (replicate 16 0)[0 := 0x1111]\<rparr>"
       and ?s2.0 = "sram_16_2\<lparr>sram_mem := (replicate 4 0)[0 := 0x1111]\<rparr>"
       and ?s3.0 = "EEProm_16_4\<lparr>EEProm_mem := (replicate 16 0)[0 := 0x1111]\<rparr>"
       and i = "\<lparr>stim_addr = 1, stim_data = 0x2222, stim_oe = 1, stim_we = 1\<rparr>"
       and a = 1 and b = 0]
  by (simp add: sim_devices)

section \<open>The claims on the transparent latch\<close>

lemmas sim_latches =
  TransparentLatch_16_def transparent_latch_16_def TransparentLatch_init_def
  transparent_latch_init_def TransparentLatch_elaborate_def transparent_latch_elaborate_def
  py_assert_def

text \<open>
  C5.  In every state the combinational statements make \<open>q\<close> equal to 0 if \<^verbatim>\<open>_oe\<close> is 1,
  whatever the other inputs; to \<open>d\<close> if \<^verbatim>\<open>_oe\<close> is 0 and \<^verbatim>\<open>le\<close> is 1; and to the
  internal register if \<^verbatim>\<open>_oe\<close> is 0 and \<^verbatim>\<open>le\<close> is 0.  After an evaluation step \<open>q\<close> is
  given by the inputs of that same step: with \<^verbatim>\<open>_oe\<close> at 0 and \<^verbatim>\<open>le\<close> at 1 it is the
  \<open>d\<close> driven in the step, without a lag of one step.  This holds for the class of
  TransparentLatch.py and of \<^verbatim>\<open>transparent_latch.py\<close>.
\<close>

theorem C5_latch_output:
  "(TransparentLatch_q (TransparentLatch_comb s1) =
      (if TransparentLatch_oe s1 = 1 then 0
       else if TransparentLatch_le s1 = 1 then TransparentLatch_d s1
       else TransparentLatch_internal_reg s1) \<and>
    TransparentLatch_q (TransparentLatch_step s1 i) =
      (if stim_latch_oe i = 1 then 0
       else if stim_le i = 1 then TransparentLatch_d (TransparentLatch_step s1 i)
       else TransparentLatch_internal_reg (TransparentLatch_step s1 i)) \<and>
    TransparentLatch_d (TransparentLatch_step s1 i) =
      Signal_eq (TransparentLatch_bits s1) (stim_d i)) \<and>
   (transparent_latch_q (transparent_latch_comb s2) =
      (if transparent_latch_oe s2 = 1 then 0
       else if transparent_latch_le s2 = 1 then transparent_latch_d s2
       else transparent_latch_internal_reg s2) \<and>
    transparent_latch_q (transparent_latch_step s2 i) =
      (if stim_latch_oe i = 1 then 0
       else if stim_le i = 1 then transparent_latch_d (transparent_latch_step s2 i)
       else transparent_latch_internal_reg (transparent_latch_step s2 i)) \<and>
    transparent_latch_d (transparent_latch_step s2 i) =
      Signal_eq (transparent_latch_bits s2) (stim_d i))"
  by (simp only: TransparentLatch_comb_q transparent_latch_comb_q
        TransparentLatch_step_q transparent_latch_step_q
        TransparentLatch_step_ports transparent_latch_step_ports simp_thms)

text \<open>
  With \<^verbatim>\<open>le\<close> at 1 and \<^verbatim>\<open>_oe\<close> at 0 the step that drives \<open>0x1234\<close> shows \<open>0x1234\<close>
  on \<open>q\<close>; with \<^verbatim>\<open>_oe\<close> at 1 it shows 0.
\<close>

theorem C5_latch_output_witness:
  "TransparentLatch_q
     (TransparentLatch_step TransparentLatch_16
        \<lparr>stim_d = 0x1234, stim_le = 1, stim_latch_oe = 0\<rparr>) = 0x1234 \<and>
   transparent_latch_q
     (transparent_latch_step transparent_latch_16
        \<lparr>stim_d = 0x1234, stim_le = 1, stim_latch_oe = 1\<rparr>) = 0"
  using C5_latch_output
    [where ?s1.0 = TransparentLatch_16 and ?s2.0 = transparent_latch_16
       and i = "\<lparr>stim_d = 0x1234, stim_le = 1, stim_latch_oe = 0\<rparr>"]
    C5_latch_output
    [where ?s2.0 = transparent_latch_16
       and i = "\<lparr>stim_d = 0x1234, stim_le = 1, stim_latch_oe = 1\<rparr>"]
  by (simp add: sim_latches Signal_eq_def)

text \<open>
  C6.  The internal register is 0 in the elaborated latch at power-on.  On a step that
  takes \<^verbatim>\<open>le\<close> from 1 to 0 it becomes the value of \<open>d\<close> present in that step, whatever
  \<^verbatim>\<open>_oe\<close> is; on every step that is not such a transition it keeps its value; and after
  any step, holding \<^verbatim>\<open>le\<close> at the level of that step over any number of further steps
  leaves it as it is.
\<close>

theorem C6_latch_register:
  "((TransparentLatch_init bits = Inr l1 \<longrightarrow>
      TransparentLatch_internal_reg (TransparentLatch_elaborate l1) = 0) \<and>
    (TransparentLatch_le s1 = 1 \<and> stim_le i = 0 \<longrightarrow>
      TransparentLatch_internal_reg (TransparentLatch_step s1 i) =
        TransparentLatch_d (TransparentLatch_step s1 i) \<and>
      TransparentLatch_d (TransparentLatch_step s1 i) =
        Signal_eq (TransparentLatch_bits s1) (stim_d i)) \<and>
    (\<not> (TransparentLatch_le s1 = 1 \<and> stim_le i = 0) \<longrightarrow>
      TransparentLatch_internal_reg (TransparentLatch_step s1 i) =
        TransparentLatch_internal_reg s1) \<and>
    ((\<forall>j \<in> set js. stim_le j = stim_le i) \<longrightarrow>
      TransparentLatch_internal_reg (TransparentLatch_run (TransparentLatch_step s1 i) js) =
        TransparentLatch_internal_reg (TransparentLatch_step s1 i))) \<and>
   ((transparent_latch_init bits = Inr l2 \<longrightarrow>
      transparent_latch_internal_reg (transparent_latch_elaborate l2) = 0) \<and>
    (transparent_latch_le s2 = 1 \<and> stim_le i = 0 \<longrightarrow>
      transparent_latch_internal_reg (transparent_latch_step s2 i) =
        transparent_latch_d (transparent_latch_step s2 i) \<and>
      transparent_latch_d (transparent_latch_step s2 i) =
        Signal_eq (transparent_latch_bits s2) (stim_d i)) \<and>
    (\<not> (transparent_latch_le s2 = 1 \<and> stim_le i = 0) \<longrightarrow>
      transparent_latch_internal_reg (transparent_latch_step s2 i) =
        transparent_latch_internal_reg s2) \<and>
    ((\<forall>j \<in> set js. stim_le j = stim_le i) \<longrightarrow>
      transparent_latch_internal_reg
        (transparent_latch_run (transparent_latch_step s2 i) js) =
        transparent_latch_internal_reg (transparent_latch_step s2 i)))"
proof -
  have a: "TransparentLatch_init bits = Inr l1 \<longrightarrow>
      TransparentLatch_internal_reg (TransparentLatch_elaborate l1) = 0"
    "transparent_latch_init bits = Inr l2 \<longrightarrow>
      transparent_latch_internal_reg (transparent_latch_elaborate l2) = 0"
    using TransparentLatch_power_on [of bits l1] transparent_latch_power_on [of bits l2]
    by blast+
  have b: "TransparentLatch_le s1 = 1 \<and> stim_le i = 0 \<longrightarrow>
      TransparentLatch_internal_reg (TransparentLatch_step s1 i) =
        TransparentLatch_d (TransparentLatch_step s1 i) \<and>
      TransparentLatch_d (TransparentLatch_step s1 i) =
        Signal_eq (TransparentLatch_bits s1) (stim_d i)"
    "transparent_latch_le s2 = 1 \<and> stim_le i = 0 \<longrightarrow>
      transparent_latch_internal_reg (transparent_latch_step s2 i) =
        transparent_latch_d (transparent_latch_step s2 i) \<and>
      transparent_latch_d (transparent_latch_step s2 i) =
        Signal_eq (transparent_latch_bits s2) (stim_d i)"
    by (simp_all add: TransparentLatch_step_reg transparent_latch_step_reg
          TransparentLatch_step_ports transparent_latch_step_ports)
  have c: "\<not> (TransparentLatch_le s1 = 1 \<and> stim_le i = 0) \<longrightarrow>
      TransparentLatch_internal_reg (TransparentLatch_step s1 i) =
        TransparentLatch_internal_reg s1"
    "\<not> (transparent_latch_le s2 = 1 \<and> stim_le i = 0) \<longrightarrow>
      transparent_latch_internal_reg (transparent_latch_step s2 i) =
        transparent_latch_internal_reg s2"
    by (auto simp add: TransparentLatch_step_reg transparent_latch_step_reg)
  have d: "(\<forall>j \<in> set js. stim_le j = stim_le i) \<longrightarrow>
      TransparentLatch_internal_reg (TransparentLatch_run (TransparentLatch_step s1 i) js) =
        TransparentLatch_internal_reg (TransparentLatch_step s1 i)"
    "(\<forall>j \<in> set js. stim_le j = stim_le i) \<longrightarrow>
      transparent_latch_internal_reg
        (transparent_latch_run (transparent_latch_step s2 i) js) =
        transparent_latch_internal_reg (transparent_latch_step s2 i)"
    using TransparentLatch_hold_after [of js i s1] transparent_latch_hold_after [of js i s2]
    by blast+
  from a b c d show ?thesis
    by (intro conjI)
qed

text \<open>
  The test bench of TransparentLatch.py up to the release of \<^verbatim>\<open>le\<close>: the register takes
  \<open>0x5678\<close> at the falling edge, with \<^verbatim>\<open>_oe\<close> at 1, and keeps it while \<open>d\<close> changes.
\<close>

theorem C6_latch_register_witness:
  "TransparentLatch_init 16 = Inr (projr (TransparentLatch_init 16)) \<and>
   TransparentLatch_internal_reg TransparentLatch_16 = 0 \<and>
   TransparentLatch_le
     (TransparentLatch_run TransparentLatch_16
        [\<lparr>stim_d = 0, stim_le = 1, stim_latch_oe = 1\<rparr>,
         \<lparr>stim_d = 0x1234, stim_le = 1, stim_latch_oe = 1\<rparr>,
         \<lparr>stim_d = 0x5678, stim_le = 1, stim_latch_oe = 1\<rparr>]) = 1 \<and>
   TransparentLatch_internal_reg
     (TransparentLatch_run
        (TransparentLatch_step
           (TransparentLatch_run TransparentLatch_16
              [\<lparr>stim_d = 0, stim_le = 1, stim_latch_oe = 1\<rparr>,
               \<lparr>stim_d = 0x1234, stim_le = 1, stim_latch_oe = 1\<rparr>,
               \<lparr>stim_d = 0x5678, stim_le = 1, stim_latch_oe = 1\<rparr>])
           \<lparr>stim_d = 0x5678, stim_le = 0, stim_latch_oe = 1\<rparr>)
        [\<lparr>stim_d = 0x1234, stim_le = 0, stim_latch_oe = 1\<rparr>]) = 0x5678 \<and>
   transparent_latch_internal_reg
     (transparent_latch_step transparent_latch_16
        \<lparr>stim_d = 0x1234, stim_le = 1, stim_latch_oe = 0\<rparr>) = 0"
  using C6_latch_register
    [where bits = 16 and ?l1.0 = "projr (TransparentLatch_init 16)"
       and ?s1.0 = "TransparentLatch_run TransparentLatch_16
              [\<lparr>stim_d = 0, stim_le = 1, stim_latch_oe = 1\<rparr>,
               \<lparr>stim_d = 0x1234, stim_le = 1, stim_latch_oe = 1\<rparr>,
               \<lparr>stim_d = 0x5678, stim_le = 1, stim_latch_oe = 1\<rparr>]"
       and i = "\<lparr>stim_d = 0x5678, stim_le = 0, stim_latch_oe = 1\<rparr>"
       and js = "[\<lparr>stim_d = 0x1234, stim_le = 0, stim_latch_oe = 1\<rparr>]"]
    C6_latch_register
    [where ?s2.0 = transparent_latch_16
       and i = "\<lparr>stim_d = 0x1234, stim_le = 1, stim_latch_oe = 0\<rparr>"]
  by (simp add: sim_latches TransparentLatch_defs transparent_latch_defs Signal_eq_def)

section \<open>The RAM classes against the EEPROM class\<close>

lemma SRam_EEProm_init:
  "SRam_init data_bits addr_bits = Inr s \<Longrightarrow> EEProm_init data_bits addr_bits = Inr e \<Longrightarrow>
     SRam_view s = EEProm_view e"
  by (auto simp add: SRam_init_def EEProm_init_def py_assert_def SRam_view_def EEProm_view_def
        split: if_splits)

lemma sram_EEProm_init:
  "sram_init data_bits addr_bits = Inr s \<Longrightarrow> EEProm_init data_bits addr_bits = Inr e \<Longrightarrow>
     sram_view s = EEProm_view e"
  by (auto simp add: sram_init_def EEProm_init_def py_assert_def sram_view_def EEProm_view_def
        split: if_splits)

lemma SRam_EEProm_step:
  "SRam_view s = EEProm_view e \<Longrightarrow> SRam_view (SRam_step s i) = EEProm_view (EEProm_step e i)"
  by (simp add: SRam_view_def EEProm_view_def SRam_defs EEProm_defs)

lemma sram_EEProm_step:
  "sram_view s = EEProm_view e \<Longrightarrow> sram_view (sram_step s i) = EEProm_view (EEProm_step e i)"
  by (simp add: sram_view_def EEProm_view_def sram_defs EEProm_defs)

lemma SRam_EEProm_run:
  "SRam_view s = EEProm_view e \<Longrightarrow> SRam_view (SRam_run s is) = EEProm_view (EEProm_run e is)"
proof (induction "is" arbitrary: s e)
  case Nil
  then show ?case by simp
next
  case (Cons i "is")
  from Cons.prems have "SRam_view (SRam_step s i) = EEProm_view (EEProm_step e i)"
    by (rule SRam_EEProm_step)
  then show ?case
    by (simp add: Cons.IH)
qed

lemma sram_EEProm_run:
  "sram_view s = EEProm_view e \<Longrightarrow> sram_view (sram_run s is) = EEProm_view (EEProm_run e is)"
proof (induction "is" arbitrary: s e)
  case Nil
  then show ?case by simp
next
  case (Cons i "is")
  from Cons.prems have "sram_view (sram_step s i) = EEProm_view (EEProm_step e i)"
    by (rule sram_EEProm_step)
  then show ?case
    by (simp add: Cons.IH)
qed

text \<open>
  C7.  Built with the same pair of widths, where both constructors accept it, a RAM (of
  SRam.py or of sram.py) and the EEPROM of eeprom.py stay equal port by port and cell by
  cell under every sequence of stimuli: the address, the data input, the data output, the
  two control lines, the widths and the array of the one are those of the other after
  every run, the ports of the one being named \<^verbatim>\<open>addr\<close>, \<^verbatim>\<open>data_in\<close>, \<^verbatim>\<open>data_out\<close>
  and of the other \<^verbatim>\<open>a\<close>, \<^verbatim>\<open>io_in\<close>, \<^verbatim>\<open>io_out\<close>.  The same holds from any two
  states that are equal in this sense.
\<close>

theorem C7_ram_eeprom_equivalent:
  "(SRam_init data_bits addr_bits = Inr s1 \<and> EEProm_init data_bits addr_bits = Inr e \<longrightarrow>
      SRam_view (SRam_run s1 js) = EEProm_view (EEProm_run e js)) \<and>
   (sram_init data_bits addr_bits = Inr s2 \<and> EEProm_init data_bits addr_bits = Inr e \<longrightarrow>
      sram_view (sram_run s2 js) = EEProm_view (EEProm_run e js)) \<and>
   (SRam_view t1 = EEProm_view f1 \<longrightarrow>
      SRam_view (SRam_run t1 js) = EEProm_view (EEProm_run f1 js)) \<and>
   (sram_view t2 = EEProm_view f2 \<longrightarrow>
      sram_view (sram_run t2 js) = EEProm_view (EEProm_run f2 js))"
  using SRam_EEProm_init [of data_bits addr_bits s1 e]
    sram_EEProm_init [of data_bits addr_bits s2 e]
    SRam_EEProm_run [of s1 e js] sram_EEProm_run [of s2 e js]
    SRam_EEProm_run [of t1 f1 js] sram_EEProm_run [of t2 f2 js]
  by blast

text \<open>
  The test bench shared by SRam.py and eeprom.py, on \<open>(16, 4)\<close>: both devices end with
  \<open>0x1111\<close> on the data output and the same cells.
\<close>

theorem C7_ram_eeprom_equivalent_witness:
  "SRam_init 16 4 = Inr SRam_16_4 \<and> EEProm_init 16 4 = Inr EEProm_16_4 \<and>
   SRam_view
     (SRam_run SRam_16_4
        [\<lparr>stim_addr = 0, stim_data = 0x1111, stim_oe = 1, stim_we = 0\<rparr>,
         \<lparr>stim_addr = 0, stim_data = 0x1111, stim_oe = 1, stim_we = 1\<rparr>,
         \<lparr>stim_addr = 1, stim_data = 0x2222, stim_oe = 1, stim_we = 0\<rparr>,
         \<lparr>stim_addr = 1, stim_data = 0x2222, stim_oe = 1, stim_we = 1\<rparr>,
         \<lparr>stim_addr = 0, stim_data = 0, stim_oe = 0, stim_we = 1\<rparr>]) =
   EEProm_view
     (EEProm_run EEProm_16_4
        [\<lparr>stim_addr = 0, stim_data = 0x1111, stim_oe = 1, stim_we = 0\<rparr>,
         \<lparr>stim_addr = 0, stim_data = 0x1111, stim_oe = 1, stim_we = 1\<rparr>,
         \<lparr>stim_addr = 1, stim_data = 0x2222, stim_oe = 1, stim_we = 0\<rparr>,
         \<lparr>stim_addr = 1, stim_data = 0x2222, stim_oe = 1, stim_we = 1\<rparr>,
         \<lparr>stim_addr = 0, stim_data = 0, stim_oe = 0, stim_we = 1\<rparr>]) \<and>
   EEProm_io_out
     (EEProm_run EEProm_16_4
        [\<lparr>stim_addr = 0, stim_data = 0x1111, stim_oe = 1, stim_we = 0\<rparr>,
         \<lparr>stim_addr = 0, stim_data = 0x1111, stim_oe = 1, stim_we = 1\<rparr>,
         \<lparr>stim_addr = 1, stim_data = 0x2222, stim_oe = 1, stim_we = 0\<rparr>,
         \<lparr>stim_addr = 1, stim_data = 0x2222, stim_oe = 1, stim_we = 1\<rparr>,
         \<lparr>stim_addr = 0, stim_data = 0, stim_oe = 0, stim_we = 1\<rparr>]) = 0x1111 \<and>
   sram_init 16 2 = Inr sram_16_2 \<and>
   sram_view (sram_run sram_16_2 [\<lparr>stim_addr = 1, stim_data = 5, stim_oe = 0, stim_we = 1\<rparr>]) =
   EEProm_view
     (EEProm_run (projr (EEProm_init 16 2))
        [\<lparr>stim_addr = 1, stim_data = 5, stim_oe = 0, stim_we = 1\<rparr>])"
  using C7_ram_eeprom_equivalent
    [where data_bits = 16 and addr_bits = 4 and ?s1.0 = SRam_16_4 and e = EEProm_16_4
       and js = "[\<lparr>stim_addr = 0, stim_data = 0x1111, stim_oe = 1, stim_we = 0\<rparr>,
         \<lparr>stim_addr = 0, stim_data = 0x1111, stim_oe = 1, stim_we = 1\<rparr>,
         \<lparr>stim_addr = 1, stim_data = 0x2222, stim_oe = 1, stim_we = 0\<rparr>,
         \<lparr>stim_addr = 1, stim_data = 0x2222, stim_oe = 1, stim_we = 1\<rparr>,
         \<lparr>stim_addr = 0, stim_data = 0, stim_oe = 0, stim_we = 1\<rparr>]"]
    C7_ram_eeprom_equivalent
    [where data_bits = 16 and addr_bits = 2 and ?s2.0 = sram_16_2
       and e = "projr (EEProm_init 16 2)"
       and js = "[\<lparr>stim_addr = 1, stim_data = 5, stim_oe = 0, stim_we = 1\<rparr>]"]
  by (simp add: sim_devices SRam_defs sram_defs EEProm_defs Signal_eq_def
        SRam_view_def sram_view_def EEProm_view_def)

section \<open>Construction\<close>

lemma SRam_init_cases:
  "SRam_init data_bits addr_bits =
     (if data_bits \<le> 0 \<or> addr_bits \<le> 0 \<or> 32 < addr_bits then Inl AssertionError
      else Inr \<lparr>SRam_addr = 0, SRam_data_in = 0, SRam_data_out = 0, SRam_oe = 0, SRam_we = 0,
                SRam_data_bits = data_bits, SRam_addr_bits = addr_bits,
                SRam_mem = replicate (2 ^ nat addr_bits) 0\<rparr>)"
  by (simp add: SRam_init_def py_assert_def)

lemma sram_init_cases:
  "sram_init data_bits addr_bits =
     (if data_bits \<le> 0 \<or> addr_bits \<le> 0 \<or> 16 < addr_bits then Inl AssertionError
      else Inr \<lparr>sram_addr = 0, sram_data_in = 0, sram_data_out = 0, sram_oe = 0, sram_we = 0,
                sram_data_bits = data_bits, sram_addr_bits = addr_bits,
                sram_mem = replicate (2 ^ nat addr_bits) 0\<rparr>)"
  by (simp add: sram_init_def py_assert_def)

lemma EEProm_init_cases:
  "EEProm_init data_bits addr_bits =
     (if data_bits \<le> 0 \<or> addr_bits \<le> 0 \<or> 32 < addr_bits then Inl AssertionError
      else Inr \<lparr>EEProm_a = 0, EEProm_io_in = 0, EEProm_io_out = 0, EEProm_oe = 0,
                EEProm_we = 0, EEProm_a_bits = addr_bits, EEProm_io_bits = data_bits,
                EEProm_mem = replicate (2 ^ nat addr_bits) 0\<rparr>)"
  by (simp add: EEProm_init_def py_assert_def)

text \<open>
  C8.  The constructor of a memory device raises the assertion failure, and so yields no
  device at all, exactly if \<^verbatim>\<open>data_bits\<close> is at most 0, \<^verbatim>\<open>addr_bits\<close> is at most 0 or
  \<^verbatim>\<open>addr_bits\<close> is above the ceiling: 32 in SRam.py and eeprom.py, 16 in sram.py.  In
  every other case it returns a device of these widths with \<open>2 ^ addr_bits\<close> cells.  The
  constructor of a latch raises the assertion failure exactly if \<^verbatim>\<open>bits\<close> is at most 0
  and otherwise returns a latch of that width.
\<close>

theorem C8_construction:
  "((data_bits \<le> 0 \<or> addr_bits \<le> 0 \<or> 32 < addr_bits \<longrightarrow>
       SRam_init data_bits addr_bits = Inl AssertionError) \<and>
    (\<not> (data_bits \<le> 0 \<or> addr_bits \<le> 0 \<or> 32 < addr_bits) \<longrightarrow>
       (\<exists>s. SRam_init data_bits addr_bits = Inr s \<and> length (SRam_mem s) = 2 ^ nat addr_bits \<and>
            SRam_data_bits s = data_bits \<and> SRam_addr_bits s = addr_bits))) \<and>
   ((data_bits \<le> 0 \<or> addr_bits \<le> 0 \<or> 16 < addr_bits \<longrightarrow>
       sram_init data_bits addr_bits = Inl AssertionError) \<and>
    (\<not> (data_bits \<le> 0 \<or> addr_bits \<le> 0 \<or> 16 < addr_bits) \<longrightarrow>
       (\<exists>s. sram_init data_bits addr_bits = Inr s \<and> length (sram_mem s) = 2 ^ nat addr_bits \<and>
            sram_data_bits s = data_bits \<and> sram_addr_bits s = addr_bits))) \<and>
   ((data_bits \<le> 0 \<or> addr_bits \<le> 0 \<or> 32 < addr_bits \<longrightarrow>
       EEProm_init data_bits addr_bits = Inl AssertionError) \<and>
    (\<not> (data_bits \<le> 0 \<or> addr_bits \<le> 0 \<or> 32 < addr_bits) \<longrightarrow>
       (\<exists>s. EEProm_init data_bits addr_bits = Inr s \<and>
            length (EEProm_mem s) = 2 ^ nat addr_bits \<and>
            EEProm_io_bits s = data_bits \<and> EEProm_a_bits s = addr_bits))) \<and>
   ((bits \<le> 0 \<longrightarrow> TransparentLatch_init bits = Inl AssertionError) \<and>
    (\<not> bits \<le> 0 \<longrightarrow>
       (\<exists>l. TransparentLatch_init bits = Inr l \<and> TransparentLatch_bits l = bits))) \<and>
   ((bits \<le> 0 \<longrightarrow> transparent_latch_init bits = Inl AssertionError) \<and>
    (\<not> bits \<le> 0 \<longrightarrow>
       (\<exists>l. transparent_latch_init bits = Inr l \<and> transparent_latch_bits l = bits)))"
proof -
  have "(bits \<le> 0 \<longrightarrow> TransparentLatch_init bits = Inl AssertionError) \<and>
    (\<not> bits \<le> 0 \<longrightarrow>
       (\<exists>l. TransparentLatch_init bits = Inr l \<and> TransparentLatch_bits l = bits))"
    by (simp add: TransparentLatch_init_def py_assert_def)
  moreover have "(bits \<le> 0 \<longrightarrow> transparent_latch_init bits = Inl AssertionError) \<and>
    (\<not> bits \<le> 0 \<longrightarrow>
       (\<exists>l. transparent_latch_init bits = Inr l \<and> transparent_latch_bits l = bits))"
    by (simp add: transparent_latch_init_def py_assert_def)
  moreover have "(data_bits \<le> 0 \<or> addr_bits \<le> 0 \<or> 32 < addr_bits \<longrightarrow>
       SRam_init data_bits addr_bits = Inl AssertionError) \<and>
    (\<not> (data_bits \<le> 0 \<or> addr_bits \<le> 0 \<or> 32 < addr_bits) \<longrightarrow>
       (\<exists>s. SRam_init data_bits addr_bits = Inr s \<and> length (SRam_mem s) = 2 ^ nat addr_bits \<and>
            SRam_data_bits s = data_bits \<and> SRam_addr_bits s = addr_bits))"
    by (simp add: SRam_init_cases)
  moreover have "(data_bits \<le> 0 \<or> addr_bits \<le> 0 \<or> 16 < addr_bits \<longrightarrow>
       sram_init data_bits addr_bits = Inl AssertionError) \<and>
    (\<not> (data_bits \<le> 0 \<or> addr_bits \<le> 0 \<or> 16 < addr_bits) \<longrightarrow>
       (\<exists>s. sram_init data_bits addr_bits = Inr s \<and> length (sram_mem s) = 2 ^ nat addr_bits \<and>
            sram_data_bits s = data_bits \<and> sram_addr_bits s = addr_bits))"
    by (simp add: sram_init_cases)
  moreover have "(data_bits \<le> 0 \<or> addr_bits \<le> 0 \<or> 32 < addr_bits \<longrightarrow>
       EEProm_init data_bits addr_bits = Inl AssertionError) \<and>
    (\<not> (data_bits \<le> 0 \<or> addr_bits \<le> 0 \<or> 32 < addr_bits) \<longrightarrow>
       (\<exists>s. EEProm_init data_bits addr_bits = Inr s \<and>
            length (EEProm_mem s) = 2 ^ nat addr_bits \<and>
            EEProm_io_bits s = data_bits \<and> EEProm_a_bits s = addr_bits))"
    by (simp add: EEProm_init_cases)
  ultimately show ?thesis
    by blast
qed

text \<open>
  Width 17 is above the ceiling of sram.py and below that of SRam.py; width 33 is above
  both; a data width of 0 and a latch width of \<open>-1\<close> are refused.
\<close>

theorem C8_construction_witness:
  "sram_init 16 17 = Inl AssertionError \<and>
   (\<exists>s. SRam_init 16 17 = Inr s \<and> length (SRam_mem s) = 131072) \<and>
   (\<exists>s. EEProm_init 16 17 = Inr s \<and> length (EEProm_mem s) = 131072) \<and>
   SRam_init 16 33 = Inl AssertionError \<and> EEProm_init 16 33 = Inl AssertionError \<and>
   SRam_init 0 4 = Inl AssertionError \<and> sram_init 0 4 = Inl AssertionError \<and>
   (\<exists>s. sram_init 16 2 = Inr s \<and> length (sram_mem s) = 4) \<and>
   TransparentLatch_init (- 1) = Inl AssertionError \<and>
   transparent_latch_init (- 1) = Inl AssertionError \<and>
   (\<exists>l. TransparentLatch_init 16 = Inr l \<and> TransparentLatch_bits l = 16) \<and>
   (\<exists>l. transparent_latch_init 16 = Inr l \<and> transparent_latch_bits l = 16)"
  using C8_construction [where data_bits = 16 and addr_bits = 17 and bits = "- 1"]
    C8_construction [where data_bits = 16 and addr_bits = 33 and bits = 16]
    C8_construction [where data_bits = 0 and addr_bits = 4 and bits = 16]
    C8_construction [where data_bits = 16 and addr_bits = 2 and bits = 16]
  by auto

section \<open>The \<^verbatim>\<open>formal\<close> entry points\<close>

text \<open>
  C9, as the code has it.  In sram.py, eeprom.py and \<^verbatim>\<open>transparent_latch.py\<close> the entry point
  \<^verbatim>\<open>formal\<close> is the placeholder \<^verbatim>\<open>assert False\<close>: invoking it raises the assertion
  failure at once and returns nothing.
\<close>

theorem C9_placeholder_formal_fails:
  "sram_formal = Inl AssertionError \<and> EEProm_formal = Inl AssertionError \<and>
   transparent_latch_formal = Inl AssertionError"
  by (simp add: sram_formal_def EEProm_formal_def transparent_latch_formal_def py_assert_def)

theorem C9_placeholder_formal_fails_witness:
  "sram_formal \<noteq> Inr None \<and> EEProm_formal \<noteq> Inr None \<and>
   transparent_latch_formal \<noteq> Inr None"
  by (simp add: C9_placeholder_formal_fails)

lemma TransparentLatch_formal_supported:
  "TransparentLatch_formal =
     Inr (Some \<lparr>fd_statements = [Cover, Assert, Assert, Assert],
                fd_ports = TransparentLatch_ports\<rparr>)"
  by (simp add: TransparentLatch_formal_def TransparentLatch_init_def py_assert_def)

text \<open>
  C9 as stated fails at SRam.py.  Its \<^verbatim>\<open>formal\<close> states no property either (the body
  holds a \<^verbatim>\<open>TODO\<close>), but it is no placeholder: it does not raise the assertion failure,
  and run where the name \<^verbatim>\<open>EEProm\<close> is bound it returns the bare design with no
  statement on it.  In SRam.py itself the name is not bound and the call stops there.
\<close>

theorem C9_SRam_formal_counterexample:
  "SRam_formal \<noteq> Inl AssertionError \<and>
   SRam_formal = Inl (NameError ''EEProm'') \<and>
   SRam_formal_in (''EEProm'' # SRam_py_globals) =
     Inr (Some \<lparr>fd_statements = [], fd_ports = EEProm_ports\<rparr>)"
  by (simp add: SRam_formal_def SRam_formal_in_def SRam_py_globals_def EEProm_init_def
        py_assert_def)

section \<open>Power-on contents\<close>

text \<open>
  C10.  A memory device leaves its constructor with every cell at 0, and the elaborated
  latch starts with its internal register at 0.  Hence after any run from power-on, a
  read (\<^verbatim>\<open>_oe\<close> at 0, \<^verbatim>\<open>_we\<close> at 1) at an address at which the run, the read step
  included, committed no write puts the all-zero pattern on the data output.
\<close>

theorem C10_power_on_zero:
  "((SRam_init data_bits addr_bits = Inr s1 \<longrightarrow>
       SRam_mem s1 = replicate (2 ^ nat addr_bits) 0) \<and>
    (SRam_init data_bits addr_bits = Inr s1 \<and> stim_addr r = a \<and> a < 2 ^ nat addr_bits \<and>
     stim_oe r = 0 \<and> stim_we r = 1 \<and> a \<notin> set (SRam_commits s1 (js @ [r])) \<longrightarrow>
       SRam_data_out (SRam_run s1 (js @ [r])) = 0)) \<and>
   ((sram_init data_bits addr_bits = Inr s2 \<longrightarrow>
       sram_mem s2 = replicate (2 ^ nat addr_bits) 0) \<and>
    (sram_init data_bits addr_bits = Inr s2 \<and> stim_addr r = a \<and> a < 2 ^ nat addr_bits \<and>
     stim_oe r = 0 \<and> stim_we r = 1 \<and> a \<notin> set (sram_commits s2 (js @ [r])) \<longrightarrow>
       sram_data_out (sram_run s2 (js @ [r])) = 0)) \<and>
   ((EEProm_init data_bits addr_bits = Inr s3 \<longrightarrow>
       EEProm_mem s3 = replicate (2 ^ nat addr_bits) 0) \<and>
    (EEProm_init data_bits addr_bits = Inr s3 \<and> stim_addr r = a \<and> a < 2 ^ nat addr_bits \<and>
     stim_oe r = 0 \<and> stim_we r = 1 \<and> a \<notin> set (EEProm_commits s3 (js @ [r])) \<longrightarrow>
       EEProm_io_out (EEProm_run s3 (js @ [r])) = 0)) \<and>
   (TransparentLatch_init bits = Inr l1 \<longrightarrow>
      TransparentLatch_internal_reg (TransparentLatch_elaborate l1) = 0) \<and>
   (transparent_latch_init bits = Inr l2 \<longrightarrow>
      transparent_latch_internal_reg (transparent_latch_elaborate l2) = 0)"
proof -
  have a: "SRam_init data_bits addr_bits = Inr s1 \<longrightarrow>
       SRam_mem s1 = replicate (2 ^ nat addr_bits) 0"
    "sram_init data_bits addr_bits = Inr s2 \<longrightarrow>
       sram_mem s2 = replicate (2 ^ nat addr_bits) 0"
    "EEProm_init data_bits addr_bits = Inr s3 \<longrightarrow>
       EEProm_mem s3 = replicate (2 ^ nat addr_bits) 0"
    using SRam_init_Inr [of data_bits addr_bits s1] sram_init_Inr [of data_bits addr_bits s2]
      EEProm_init_Inr [of data_bits addr_bits s3]
    by blast+
  have b: "SRam_init data_bits addr_bits = Inr s1 \<and> stim_addr r = a \<and> a < 2 ^ nat addr_bits \<and>
     stim_oe r = 0 \<and> stim_we r = 1 \<and> a \<notin> set (SRam_commits s1 (js @ [r])) \<longrightarrow>
       SRam_data_out (SRam_run s1 (js @ [r])) = 0"
    using SRam_fresh_read [of data_bits addr_bits s1 r a js] by blast
  have c: "sram_init data_bits addr_bits = Inr s2 \<and> stim_addr r = a \<and> a < 2 ^ nat addr_bits \<and>
     stim_oe r = 0 \<and> stim_we r = 1 \<and> a \<notin> set (sram_commits s2 (js @ [r])) \<longrightarrow>
       sram_data_out (sram_run s2 (js @ [r])) = 0"
    using sram_fresh_read [of data_bits addr_bits s2 r a js] by blast
  have d: "EEProm_init data_bits addr_bits = Inr s3 \<and> stim_addr r = a \<and>
     a < 2 ^ nat addr_bits \<and>
     stim_oe r = 0 \<and> stim_we r = 1 \<and> a \<notin> set (EEProm_commits s3 (js @ [r])) \<longrightarrow>
       EEProm_io_out (EEProm_run s3 (js @ [r])) = 0"
    using EEProm_fresh_read [of data_bits addr_bits s3 r a js] by blast
  have e: "TransparentLatch_init bits = Inr l1 \<longrightarrow>
      TransparentLatch_internal_reg (TransparentLatch_elaborate l1) = 0"
    "transparent_latch_init bits = Inr l2 \<longrightarrow>
      transparent_latch_internal_reg (transparent_latch_elaborate l2) = 0"
    using TransparentLatch_power_on [of bits l1] transparent_latch_power_on [of bits l2]
    by blast+
  from a(1) b a(2) c a(3) d e show ?thesis
    by (intro conjI)
qed

text \<open>
  The control lines are at 0 at power-on, so a first step that drives \<^verbatim>\<open>_we\<close> to 1
  is itself a rising edge: it commits the data input of that step at its address, and a
  read in that step shows that value.
\<close>

lemma SRam_power_on_edge:
  "SRam_commits SRam_16_4 [\<lparr>stim_addr = 1, stim_data = 5, stim_oe = 0, stim_we = 1\<rparr>] = [1] \<and>
   SRam_data_out
     (SRam_step SRam_16_4 \<lparr>stim_addr = 1, stim_data = 5, stim_oe = 0, stim_we = 1\<rparr>) = 5"
  by (simp add: sim_devices SRam_defs Signal_eq_def)

text \<open>
  After a write of \<open>0x1111\<close> at address 0, reading address 1 gives 0 on \<open>(16, 4)\<close>;
  the read at address 1 is no rising edge, \<^verbatim>\<open>_we\<close> being at 1 already.
\<close>

theorem C10_power_on_zero_witness:
  "SRam_init 16 4 = Inr SRam_16_4 \<and> SRam_mem SRam_16_4 = replicate 16 0 \<and>
   SRam_commits SRam_16_4
     [\<lparr>stim_addr = 0, stim_data = 0x1111, stim_oe = 1, stim_we = 0\<rparr>,
      \<lparr>stim_addr = 0, stim_data = 0x1111, stim_oe = 1, stim_we = 1\<rparr>,
      \<lparr>stim_addr = 1, stim_data = 0x2222, stim_oe = 0, stim_we = 1\<rparr>] = [0] \<and>
   SRam_data_out
     (SRam_run SRam_16_4
        [\<lparr>stim_addr = 0, stim_data = 0x1111, stim_oe = 1, stim_we = 0\<rparr>,
         \<lparr>stim_addr = 0, stim_data = 0x1111, stim_oe = 1, stim_we = 1\<rparr>,
         \<lparr>stim_addr = 1, stim_data = 0x2222, stim_oe = 0, stim_we = 1\<rparr>]) = 0 \<and>
   sram_init 16 2 = Inr sram_16_2 \<and> sram_mem sram_16_2 = replicate 4 0 \<and>
   EEProm_init 16 4 = Inr EEProm_16_4 \<and> EEProm_mem EEProm_16_4 = replicate 16 0 \<and>
   TransparentLatch_internal_reg TransparentLatch_16 = 0 \<and>
   transparent_latch_internal_reg transparent_latch_16 = 0"
  using C10_power_on_zero
    [where data_bits = 16 and addr_bits = 4 and ?s1.0 = SRam_16_4 and ?s3.0 = EEProm_16_4
       and bits = 16 and ?l1.0 = "projr (TransparentLatch_init 16)"
       and ?l2.0 = "projr (transparent_latch_init 16)"
       and a = 1 and r = "\<lparr>stim_addr = 1, stim_data = 0x2222, stim_oe = 0, stim_we = 1\<rparr>"
       and js = "[\<lparr>stim_addr = 0, stim_data = 0x1111, stim_oe = 1, stim_we = 0\<rparr>,
                  \<lparr>stim_addr = 0, stim_data = 0x1111, stim_oe = 1, stim_we = 1\<rparr>]"]
    C10_power_on_zero [where data_bits = 16 and addr_bits = 2 and ?s2.0 = sram_16_2]
  by (simp add: sim_devices sim_latches SRam_defs Signal_eq_def)

end
